theory Spec2Isabelle
  imports Complex_Main
begin

section \<open>JavaScript numbers\<close>

text \<open>
  A JavaScript number is an IEEE double. The model keeps the three non-finite values
  apart and reads every finite double as the real number it denotes: rounding, overflow
  of finite arithmetic and the sign of zero are not modelled.
\<close>

datatype jsnum = Fin real | PInf | NInf | NaN

fun isFinite :: "jsnum \<Rightarrow> bool" where
  "isFinite (Fin x) = True"
| "isFinite PInf = False"
| "isFinite NInf = False"
| "isFinite NaN = False"

text \<open>Truthiness of a number, as \<open>||\<close> and \<open>!\<close> read it: zero and NaN are falsy.\<close>

fun truthy :: "jsnum \<Rightarrow> bool" where
  "truthy (Fin x) = (x \<noteq> 0)"
| "truthy PInf = True"
| "truthy NInf = True"
| "truthy NaN = False"

fun js_neg :: "jsnum \<Rightarrow> jsnum" where
  "js_neg (Fin x) = Fin (- x)"
| "js_neg PInf = NInf"
| "js_neg NInf = PInf"
| "js_neg NaN = NaN"

fun js_add :: "jsnum \<Rightarrow> jsnum \<Rightarrow> jsnum" where
  "js_add NaN b = NaN"
| "js_add a NaN = NaN"
| "js_add (Fin x) (Fin y) = Fin (x + y)"
| "js_add PInf NInf = NaN"
| "js_add NInf PInf = NaN"
| "js_add PInf b = PInf"
| "js_add NInf b = NInf"
| "js_add a PInf = PInf"
| "js_add a NInf = NInf"

definition js_sub :: "jsnum \<Rightarrow> jsnum \<Rightarrow> jsnum" where
  "js_sub a b = js_add a (js_neg b)"

text \<open>The sign of a non-NaN number: 1, 0 or -1.\<close>

fun sign_of :: "jsnum \<Rightarrow> int" where
  "sign_of (Fin x) = (if x < 0 then - 1 else if x = 0 then 0 else 1)"
| "sign_of PInf = 1"
| "sign_of NInf = - 1"
| "sign_of NaN = 0"

definition signed_inf :: "int \<Rightarrow> jsnum" where
  "signed_inf s = (if s < 0 then NInf else if s = 0 then NaN else PInf)"

fun js_mul :: "jsnum \<Rightarrow> jsnum \<Rightarrow> jsnum" where
  "js_mul NaN b = NaN"
| "js_mul a NaN = NaN"
| "js_mul (Fin x) (Fin y) = Fin (x * y)"
| "js_mul a b = signed_inf (sign_of a * sign_of b)"

fun js_div :: "jsnum \<Rightarrow> jsnum \<Rightarrow> jsnum" where
  "js_div NaN b = NaN"
| "js_div a NaN = NaN"
| "js_div (Fin x) (Fin y) = (if y = 0 then signed_inf (sign_of (Fin x)) else Fin (x / y))"
| "js_div (Fin x) b = Fin 0"
| "js_div a (Fin y) = signed_inf (sign_of a * (if y < 0 then - 1 else 1))"
| "js_div a b = NaN"

text \<open>
  The comparisons \<open><=\<close> and \<open>==\<close>, false when either side is NaN, and \<open>Math.max\<close> and
  \<open>Math.min\<close> of two numbers, NaN when either is NaN.
\<close>

fun js_eq :: "jsnum \<Rightarrow> jsnum \<Rightarrow> bool" where
  "js_eq NaN b = False"
| "js_eq a NaN = False"
| "js_eq a b = (a = b)"

fun js_le :: "jsnum \<Rightarrow> jsnum \<Rightarrow> bool" where
  "js_le NaN b = False"
| "js_le a NaN = False"
| "js_le NInf b = True"
| "js_le a PInf = True"
| "js_le (Fin x) (Fin y) = (x \<le> y)"
| "js_le a b = False"

fun Math_max :: "jsnum \<Rightarrow> jsnum \<Rightarrow> jsnum" where
  "Math_max NaN b = NaN"
| "Math_max a NaN = NaN"
| "Math_max a b = (if js_le a b then b else a)"

fun Math_min :: "jsnum \<Rightarrow> jsnum \<Rightarrow> jsnum" where
  "Math_min NaN b = NaN"
| "Math_min a NaN = NaN"
| "Math_min a b = (if js_le a b then a else b)"

fun Math_round :: "jsnum \<Rightarrow> jsnum" where
  "Math_round (Fin x) = Fin (of_int \<lfloor>x + 1 / 2\<rfloor>)"
| "Math_round a = a"

fun Math_floor :: "jsnum \<Rightarrow> jsnum" where
  "Math_floor (Fin x) = Fin (of_int \<lfloor>x\<rfloor>)"
| "Math_floor a = a"

fun Math_cos :: "jsnum \<Rightarrow> jsnum" where
  "Math_cos (Fin x) = Fin (cos x)"
| "Math_cos a = NaN"

fun Math_sin :: "jsnum \<Rightarrow> jsnum" where
  "Math_sin (Fin x) = Fin (sin x)"
| "Math_sin a = NaN"

definition Math_PI :: jsnum where
  "Math_PI = Fin pi"

text \<open>\<open>a || b\<close> on numbers, with \<open>undefined\<close> (a missing property) as \<open>None\<close>.\<close>

fun js_or :: "jsnum option \<Rightarrow> jsnum \<Rightarrow> jsnum" where
  "js_or None b = b"
| "js_or (Some a) b = (if truthy a then a else b)"

text \<open>
  The values a user function may return: a number or a (nested) array. \<open>ToNumber\<close> is
  the number JavaScript reads such a value as in arithmetic: an array goes through its
  string, so the empty array is 0, a one-element array is its element and a longer one
  is NaN.
\<close>

datatype jsval = JNum jsnum | JArr "jsval list"

fun ToNumber :: "jsval \<Rightarrow> jsnum" where
  "ToNumber (JNum n) = n"
| "ToNumber (JArr []) = Fin 0"
| "ToNumber (JArr [v]) = ToNumber v"
| "ToNumber (JArr (v # w # vs)) = NaN"

fun toLowerCase_char :: "char \<Rightarrow> char" where
  "toLowerCase_char c =
     (if (65::nat) \<le> of_char c \<and> (of_char c :: nat) \<le> 90
      then char_of ((of_char c :: nat) + 32) else c)"

definition toLowerCase :: "string \<Rightarrow> string" where
  "toLowerCase s = map toLowerCase_char s"

section \<open>The rotation matrix\<close>

text \<open>
  Modelled from the spec: \<open>twoRotations.generateMatrix\<close>, the matrix builder that
  \<open>Surface._generateRotation\<close> calls, is not among the sources. The spec (4.2) makes it
  the pitch rotation applied after the yaw rotation, yaw about the up axis and pitch
  about the horizontal axis. With yaw 0 and pitch 0 the view is the one from the top
  (section 8, scenario B), so the up axis is the axis the projection drops, the third, and the
  horizontal axis is the first. The spec leaves the sense of the angles open; both
  rotations are counterclockwise. The entries are those of the product written out.
\<close>

definition generateMatrix :: "jsnum \<Rightarrow> jsnum \<Rightarrow> jsnum list list" where
  "generateMatrix yaw pitch =
     (let cy = Math_cos yaw; sy = Math_sin yaw; cp = Math_cos pitch; sp = Math_sin pitch
      in [[cy, js_neg sy, Fin 0],
          [js_mul cp sy, js_mul cp cy, js_neg sp],
          [js_mul sp sy, js_mul sp cy, cp]])"

text \<open>The two single-axis rotations the spec composes, and the matrix operations.\<close>

definition yawRotation :: "jsnum \<Rightarrow> jsnum list list" where
  "yawRotation yaw =
     [[Math_cos yaw, js_neg (Math_sin yaw), Fin 0],
      [Math_sin yaw, Math_cos yaw, Fin 0],
      [Fin 0, Fin 0, Fin 1]]"

definition pitchRotation :: "jsnum \<Rightarrow> jsnum list list" where
  "pitchRotation pitch =
     [[Fin 1, Fin 0, Fin 0],
      [Fin 0, Math_cos pitch, js_neg (Math_sin pitch)],
      [Fin 0, Math_sin pitch, Math_cos pitch]]"

definition dot :: "jsnum list \<Rightarrow> jsnum list \<Rightarrow> jsnum" where
  "dot r v = foldl js_add (Fin 0) (map2 js_mul r v)"

definition rotate :: "jsnum list list \<Rightarrow> jsnum list \<Rightarrow> jsnum list" where
  "rotate m v = map (\<lambda>r. dot r v) m"

definition matMul :: "jsnum list list \<Rightarrow> jsnum list list \<Rightarrow> jsnum list list" where
  "matMul a b = map (\<lambda>r. map (\<lambda>c. dot r c) (transpose b)) a"

definition identity3 :: "jsnum list list" where
  "identity3 = [[Fin 1, Fin 0, Fin 0], [Fin 0, Fin 1, Fin 0], [Fin 0, Fin 0, Fin 1]]"

text \<open>Reading an index of an array: \<open>undefined\<close>, NaN in arithmetic, beyond its end.\<close>

definition js_nth :: "jsnum list \<Rightarrow> nat \<Rightarrow> jsnum" where
  "js_nth xs i = (if i < length xs then xs ! i else NaN)"

definition entry :: "jsnum list list \<Rightarrow> nat \<Rightarrow> nat \<Rightarrow> jsnum" where
  "entry m i j = (if i < length m then js_nth (m ! i) j else NaN)"

definition det3 :: "jsnum list list \<Rightarrow> jsnum" where
  "det3 m =
     js_add
       (js_sub
          (js_mul (entry m 0 0)
             (js_sub (js_mul (entry m 1 1) (entry m 2 2)) (js_mul (entry m 1 2) (entry m 2 1))))
          (js_mul (entry m 0 1)
             (js_sub (js_mul (entry m 1 0) (entry m 2 2)) (js_mul (entry m 1 2) (entry m 2 0)))))
       (js_mul (entry m 0 2)
          (js_sub (js_mul (entry m 1 0) (entry m 2 1)) (js_mul (entry m 1 1) (entry m 2 0))))"

section \<open>Quads and the DOM element\<close>

text \<open>A projected point is the two-element array \<open>[screenX, screenY]\<close>.\<close>

type_synonym point = "jsnum \<times> jsnum"

record path =
  moveTo :: point
  pointOne :: point
  pointTwo :: point
  pointThree :: point

record quad =
  path :: path
  avg :: jsnum

datatype error = Error string | TypeError string | InvalidConfig

text \<open>
  What Surface uses of its element: the node name, the canvas size, the calls its 2d
  context received (in order) and the path children of an svg. A path child keeps the
  geometry its \<open>d\<close> attribute spells, and its fill.
\<close>

datatype draw_op =
  ClearRect jsnum jsnum "jsnum option" "jsnum option"
  | BeginPath
  | FillStyle string
  | StrokeStyle string
  | MoveTo jsnum jsnum
  | LineTo jsnum jsnum
  | Stroke
  | Fill

record svg_path =
  attr_d :: path
  attr_fill :: string

record element =
  nodeName :: string
  el_width :: "jsnum option"
  el_height :: "jsnum option"
  context2d :: "draw_op list"
  childNodes :: "svg_path list"

text \<open>\<open>document.createElement('canvas')\<close> and \<open>document.createElementNS(SVG_NS, 'svg')\<close>.\<close>

definition document_createElement_canvas :: element where
  "document_createElement_canvas =
     \<lparr>nodeName = ''CANVAS'', el_width = Some (Fin 300), el_height = Some (Fin 150),
      context2d = [], childNodes = []\<rparr>"

definition document_createElementNS_svg :: element where
  "document_createElementNS_svg =
     \<lparr>nodeName = ''svg'', el_width = None, el_height = None, context2d = [], childNodes = []\<rparr>"

section \<open>Surface: what the two source files share\<close>

text \<open>
  Both files define class Surface; \<open>orient\<close>, \<open>_generateRotation\<close>, \<open>_ensureElement\<close>,
  \<open>_setType\<close> and \<open>_createElement\<close> are the same in both and are modelled once, over the
  fields the two classes share. A property that is \<open>undefined\<close> is \<open>None\<close>. The leading
  underscore of a private name is dropped, and \<open>_type\<close> is \<open>surfaceType\<close>; the
  property \<open>range\<close> is \<open>range'\<close>.
\<close>

record surface_base =
  tagName :: string
  el :: "element option"
  width :: jsnum
  height :: jsnum
  zoom :: jsnum
  yaw :: jsnum
  pitch :: jsnum
  maxPitch :: jsnum
  colorFn :: "jsnum \<Rightarrow> string"
  fn :: "jsnum list \<Rightarrow> jsval"
  rotationMatrix :: "jsnum list list"
  surfaceType :: "string option"

definition generateRotation :: "'a surface_base_scheme \<Rightarrow> 'a surface_base_scheme" where
  "generateRotation this = this\<lparr>rotationMatrix := generateMatrix (yaw this) (pitch this)\<rparr>"

definition createElement :: "string \<Rightarrow> error + element" where
  "createElement tag =
     (if tag = ''svg'' then Inr document_createElementNS_svg
      else if tag = ''canvas'' then Inr document_createElement_canvas
      else Inl (Error ''The element must be a canvas or svg.''))"

text \<open>The second statement of \<open>_ensureElement\<close>: a canvas takes the surface's size.\<close>

definition sizeCanvas :: "'a surface_base_scheme \<Rightarrow> 'a surface_base_scheme" where
  "sizeCanvas this =
     (case el this of
        None \<Rightarrow> this
      | Some e \<Rightarrow>
          if toLowerCase (nodeName e) = ''canvas''
          then this\<lparr>el := Some (e\<lparr>el_width := Some (width this), el_height := Some (height this)\<rparr>)\<rparr>
          else this)"

definition ensureElement :: "'a surface_base_scheme \<Rightarrow> error + 'a surface_base_scheme" where
  "ensureElement this =
     (case el this of
        None \<Rightarrow>
          (case createElement (tagName this) of
             Inl e \<Rightarrow> Inl e
           | Inr e \<Rightarrow> Inr (sizeCanvas (this\<lparr>el := Some e\<rparr>)))
      | Some e \<Rightarrow> Inr (sizeCanvas this))"

definition setType :: "'a surface_base_scheme \<Rightarrow> error + 'a surface_base_scheme" where
  "setType this =
     (case el this of
        None \<Rightarrow> Inl (TypeError ''Cannot read properties of undefined'')
      | Some e \<Rightarrow> Inr (this\<lparr>surfaceType := Some (toLowerCase (nodeName e))\<rparr>))"

text \<open>
  The argument of \<open>orient\<close>: an object that may hold a yaw and a pitch, \<open>None\<close> for a
  property it does not have.
\<close>

record orientation =
  new_yaw :: "jsnum option"
  new_pitch :: "jsnum option"

definition orient :: "orientation \<Rightarrow> 'a surface_base_scheme \<Rightarrow> 'a surface_base_scheme" where
  "orient orientation this =
     (let this = this\<lparr>yaw := (case new_yaw orientation of None \<Rightarrow> yaw this | Some v \<Rightarrow> v),
                      pitch := (case new_pitch orientation of None \<Rightarrow> pitch this | Some v \<Rightarrow> v)\<rparr>;
          this = this\<lparr>pitch :=
                   Math_max (js_neg (maxPitch this)) (Math_min (maxPitch this) (pitch this))\<rparr>
      in generateRotation this)"

definition spacetimeOrigin :: "jsnum list \<Rightarrow> jsval" where
  "spacetimeOrigin args = JArr [JArr [JArr [JNum (Fin 0)]]]"

text \<open>The 2d context calls that paint one quad, fill and stroke colours given.\<close>

definition paintQuad :: "string \<Rightarrow> string \<Rightarrow> path \<Rightarrow> draw_op list" where
  "paintQuad fillStyle strokeStyle p =
     [BeginPath, FillStyle fillStyle, StrokeStyle strokeStyle,
      MoveTo (Math_round (fst (moveTo p))) (Math_round (snd (moveTo p))),
      LineTo (Math_round (fst (pointOne p))) (Math_round (snd (pointOne p))),
      LineTo (Math_round (fst (pointTwo p))) (Math_round (snd (pointTwo p))),
      LineTo (Math_round (fst (pointThree p))) (Math_round (snd (pointThree p))),
      Stroke, Fill]"

section \<open>The domain sampler and the visualisation data\<close>

text \<open>
  Modelled from the spec: \<open>compute\<close> (util/compute) is not among the sources. The spec
  (3, 4.1) has it evaluate \<open>fn(t, x, y)\<close> at every vertex of the grid, time first, then
  x, then y. An axis from min to max with a resolution has floor((max - min) /
  resolution) + 1 points, the first at min and every next one a resolution further, and
  from == to is exactly one sample. The count is taken in JavaScript arithmetic: a count
  that is NaN or not positive gives no point, and with an infinite count the sampler
  does not return, which is \<open>None\<close>. A sample is the number that the value \<open>fn\<close> returned
  is read as.
\<close>

fun axisPoints :: "nat \<Rightarrow> jsnum \<Rightarrow> jsnum \<Rightarrow> jsnum list" where
  "axisPoints 0 x resolution = []"
| "axisPoints (Suc n) x resolution = x # axisPoints n (js_add x resolution) resolution"

definition axisSamples :: "jsnum \<Rightarrow> jsnum \<Rightarrow> jsnum \<Rightarrow> jsnum list option" where
  "axisSamples lo hi resolution =
     (if js_eq lo hi then Some [lo]
      else case js_add (Math_floor (js_div (js_sub hi lo) resolution)) (Fin 1) of
             Fin n \<Rightarrow> Some (axisPoints (nat \<lfloor>n\<rfloor>) lo resolution)
           | PInf \<Rightarrow> None
           | NInf \<Rightarrow> Some []
           | NaN \<Rightarrow> Some [])"

record compute_args =
  c_fn :: "jsnum list \<Rightarrow> jsval"
  c_from :: jsnum
  c_to :: jsnum
  c_resolution :: jsnum
  c_xDomain :: "jsnum \<times> jsnum"
  c_xResolution :: jsnum
  c_yDomain :: "jsnum \<times> jsnum"
  c_yResolution :: jsnum

text \<open>
  Modelled from the spec: \<open>compute\<close> of util/compute, the DomainSampler of 4.1. A
  resolution that is not positive, on any axis, fails with InvalidConfig; otherwise the
  three axes are laid out as above and \<open>fn\<close> is evaluated on their product.
\<close>

definition compute :: "compute_args \<Rightarrow> (error + jsnum list list list) option" where
  "compute a =
     (if js_le (c_resolution a) (Fin 0) \<or> js_le (c_xResolution a) (Fin 0)
         \<or> js_le (c_yResolution a) (Fin 0)
      then Some (Inl InvalidConfig)
      else
     (case axisSamples (c_from a) (c_to a) (c_resolution a) of
        None \<Rightarrow> None
      | Some ts \<Rightarrow>
     (case axisSamples (fst (c_xDomain a)) (snd (c_xDomain a)) (c_xResolution a) of
        None \<Rightarrow> None
      | Some xs \<Rightarrow>
     (case axisSamples (fst (c_yDomain a)) (snd (c_yDomain a)) (c_yResolution a) of
        None \<Rightarrow> None
      | Some ys \<Rightarrow>
          Some (Inr (map (\<lambda>t. map (\<lambda>x. map (\<lambda>y. ToNumber (c_fn a [t, x, y])) ys) xs) ts))))))"

text \<open>
  Modelled from the spec: \<open>generateVisData\<close> (util/generate-vis-data) is not among the
  sources. The spec makes it the Projector (4.3) followed by the QuadAssembler (4.4).
  The vertex with indices (i, j) lies at (xDomain[0] + i * xResolution, yDomain[0] + j *
  yResolution), where the sampler put it. The quads are the legacy ones the spec
  describes, every cell emitted in row-major order: the skipping of non-finite quads is,
  in the spec's words, not present in the legacy behaviour. The spec gives the options
  \<open>range\<close> and \<open>pitch\<close> no part in either step.
\<close>

record vis_args =
  v_data :: "jsnum list list"
  v_height :: jsnum
  v_width :: jsnum
  v_range :: "jsnum \<times> jsnum"
  v_zScale :: jsnum
  v_pitch :: jsnum
  v_xScale :: jsnum
  v_yScale :: jsnum
  v_xResolution :: jsnum
  v_yResolution :: jsnum
  v_xDomain :: "jsnum \<times> jsnum"
  v_yDomain :: "jsnum \<times> jsnum"
  v_zoom :: jsnum
  v_rotationMatrix :: "jsnum list list"

definition vertex :: "vis_args \<Rightarrow> nat \<Rightarrow> nat \<Rightarrow> jsnum \<Rightarrow> jsnum list" where
  "vertex a i j z =
     [js_mul (js_add (fst (v_xDomain a)) (js_mul (Fin (real i)) (v_xResolution a))) (v_xScale a),
      js_mul (js_add (fst (v_yDomain a)) (js_mul (Fin (real j)) (v_yResolution a))) (v_yScale a),
      js_mul z (v_zScale a)]"

definition toScreen :: "vis_args \<Rightarrow> jsnum list \<Rightarrow> point" where
  "toScreen a r =
     (js_add (js_div (v_width a) (Fin 2)) (js_mul (v_zoom a) (js_nth r 0)),
      js_sub (js_div (v_height a) (Fin 2)) (js_mul (v_zoom a) (js_nth r 1)))"

definition projectPoint :: "vis_args \<Rightarrow> nat \<Rightarrow> nat \<Rightarrow> jsnum \<Rightarrow> point" where
  "projectPoint a i j z = toScreen a (rotate (v_rotationMatrix a) (vertex a i j z))"

definition projectGrid :: "vis_args \<Rightarrow> point list list" where
  "projectGrid a =
     map (\<lambda>(i, row). map (\<lambda>(j, z). projectPoint a i j z) (enumerate 0 row))
       (enumerate 0 (v_data a))"

definition quadAt :: "point list list \<Rightarrow> jsnum list list \<Rightarrow> nat \<Rightarrow> nat \<Rightarrow> quad" where
  "quadAt pts data i j =
     \<lparr>path = \<lparr>moveTo = pts ! i ! j, pointOne = pts ! (i + 1) ! j,
              pointTwo = pts ! (i + 1) ! (j + 1), pointThree = pts ! i ! (j + 1)\<rparr>,
      avg = js_div
              (js_add
                 (js_add (js_add (data ! i ! j) (data ! (i + 1) ! j)) (data ! (i + 1) ! (j + 1)))
                 (data ! i ! (j + 1)))
              (Fin 4)\<rparr>"

definition columns :: "'a list list \<Rightarrow> nat" where
  "columns grid = (case grid of [] \<Rightarrow> 0 | row # rows \<Rightarrow> length row)"

definition assembleQuads :: "point list list \<Rightarrow> jsnum list list \<Rightarrow> quad list" where
  "assembleQuads pts data =
     concat (map (\<lambda>i. map (\<lambda>j. quadAt pts data i j) [0..<columns data - 1])
               [0..<length data - 1])"

text \<open>
  Modelled from the spec: \<open>generateVisData\<close> of util/generate-vis-data, the Projector of
  4.3 followed by the QuadAssembler of 4.4, from the parts above.
\<close>

definition generateVisData :: "vis_args \<Rightarrow> quad list" where
  "generateVisData a = assembleQuads (projectGrid a) (v_data a)"

text \<open>
  The contract the spec recommends in 4.4 instead: a quad with a non-finite coordinate
  is skipped and counted. It is kept apart from \<open>generateVisData\<close> to be compared with it.
\<close>

definition finitePoint :: "point \<Rightarrow> bool" where
  "finitePoint p = (isFinite (fst p) \<and> isFinite (snd p))"

definition finiteQuad :: "quad \<Rightarrow> bool" where
  "finiteQuad q =
     (finitePoint (moveTo (path q)) \<and> finitePoint (pointOne (path q)) \<and>
      finitePoint (pointTwo (path q)) \<and> finitePoint (pointThree (path q)))"

definition skippingAssembler :: "quad list \<Rightarrow> quad list \<times> nat" where
  "skippingAssembler qs = (filter finiteQuad qs, length (filter (\<lambda>q. \<not> finiteQuad q) qs))"

section \<open>Surface of src/unnamed/part_000\<close>

text \<open>
  The options object of the constructor, restricted to \<open>Surface.surfaceOptions\<close> as
  \<open>_.pick\<close> does; an option that is missing or \<open>undefined\<close> is \<open>None\<close>. A domain or a
  range is a two-element array, modelled as a pair. \<open>tagName\<close> and \<open>el\<close> are read through
  \<open>_.result\<close>, which is the property itself unless it is a function; the model takes them
  as values.
\<close>

record options =
  o_tagName :: "string option"
  o_fn :: "(jsnum list \<Rightarrow> jsval) option"
  o_el :: "element option"
  o_width :: "jsnum option"
  o_height :: "jsnum option"
  o_colorFn :: "(jsnum \<Rightarrow> string) option"
  o_strokeColorFn :: "(jsnum \<Rightarrow> string) option"
  o_zoom :: "jsnum option"
  o_yaw :: "jsnum option"
  o_pitch :: "jsnum option"
  o_xyDomain :: "(jsnum \<times> jsnum) option"
  o_xyResolution :: "jsnum option"
  o_xyScale :: "jsnum option"
  o_yDomain :: "(jsnum \<times> jsnum) option"
  o_yResolution :: "jsnum option"
  o_yScale :: "jsnum option"
  o_xDomain :: "(jsnum \<times> jsnum) option"
  o_xResolution :: "jsnum option"
  o_xScale :: "jsnum option"
  o_range :: "(jsnum \<times> jsnum) option"
  o_zScale :: "jsnum option"
  o_maxPitch :: "jsnum option"

definition noOptions :: options where
  "noOptions =
     \<lparr>o_tagName = None, o_fn = None, o_el = None, o_width = None, o_height = None,
      o_colorFn = None, o_strokeColorFn = None, o_zoom = None, o_yaw = None, o_pitch = None,
      o_xyDomain = None, o_xyResolution = None, o_xyScale = None, o_yDomain = None,
      o_yResolution = None, o_yScale = None, o_xDomain = None, o_xResolution = None,
      o_xScale = None, o_range = None, o_zScale = None, o_maxPitch = None\<rparr>"

record surface = surface_base +
  strokeColorFn :: "jsnum \<Rightarrow> string"
  xyDomain :: "jsnum \<times> jsnum"
  xyResolution :: jsnum
  xyScale :: jsnum
  range' :: "jsnum \<times> jsnum"
  zScale :: jsnum
  xDomain :: "(jsnum \<times> jsnum) option"
  xResolution :: "jsnum option"
  xScale :: "jsnum option"
  yDomain :: "(jsnum \<times> jsnum) option"
  yResolution :: "jsnum option"
  yScale :: "jsnum option"

text \<open>\<open>_.defaults\<close>: an option that was given stands, a missing one takes the default.\<close>

definition orDefault :: "'a option \<Rightarrow> 'a \<Rightarrow> 'a" where
  "orDefault given dflt = (case given of None \<Rightarrow> dflt | Some v \<Rightarrow> v)"

definition defaults :: "options \<Rightarrow> surface" where
  "defaults opts =
     \<lparr>tagName = orDefault (o_tagName opts) ''canvas'',
      el = o_el opts,
      width = orDefault (o_width opts) (Fin 300),
      height = orDefault (o_height opts) (Fin 300),
      zoom = orDefault (o_zoom opts) (Fin 1),
      yaw = orDefault (o_yaw opts) (Fin (1 / 2)),
      pitch = orDefault (o_pitch opts) (Fin (1 / 2)),
      maxPitch = orDefault (o_maxPitch opts) (js_div Math_PI (Fin 2)),
      colorFn = orDefault (o_colorFn opts) (\<lambda>a. ''#333''),
      fn = orDefault (o_fn opts) spacetimeOrigin,
      rotationMatrix = [],
      surfaceType = None,
      strokeColorFn = orDefault (o_strokeColorFn opts) (\<lambda>a. ''rgba(0,0,0,0.4)''),
      xyDomain = orDefault (o_xyDomain opts) (Fin (- 10), Fin 10),
      xyResolution = orDefault (o_xyResolution opts) (Fin 1),
      xyScale = orDefault (o_xyScale opts) (Fin 300),
      range' = orDefault (o_range opts) (Fin (- 10), Fin 10),
      zScale = orDefault (o_zScale opts) (Fin 1),
      xDomain = o_xDomain opts,
      xResolution = o_xResolution opts,
      xScale = o_xScale opts,
      yDomain = o_yDomain opts,
      yResolution = o_yResolution opts,
      yScale = o_yScale opts\<rparr>"

definition constructor :: "options \<Rightarrow> error + surface" where
  "constructor opts =
     (let this = defaults opts;
          this = this\<lparr>rotationMatrix := []\<rparr>;
          this = generateRotation this
      in case ensureElement this of
           Inl e \<Rightarrow> Inl e
         | Inr this \<Rightarrow> setType this)"

text \<open>The options of \<open>render\<close>: \<open>t\<close> may be missing.\<close>

record render_options =
  r_t :: "jsnum option"

text \<open>\<open>var time = options.t || 0\<close>, the first statement of \<open>render\<close>.\<close>

definition renderTime :: "render_options \<Rightarrow> jsnum" where
  "renderTime opts = js_or (r_t opts) (Fin 0)"

definition computeData ::
  "jsnum \<Rightarrow> jsnum \<Rightarrow> jsnum \<Rightarrow> surface \<Rightarrow> (error + jsnum list list list) option" where
  "computeData from to resolution this =
     compute
       \<lparr>c_fn = fn this, c_from = from, c_to = to, c_resolution = resolution,
        c_xDomain = orDefault (xDomain this) (xyDomain this),
        c_xResolution = js_or (xResolution this) (xyResolution this),
        c_yDomain = orDefault (yDomain this) (xyDomain this),
        c_yResolution = js_or (yResolution this) (xyResolution this)\<rparr>"

text \<open>The object that \<open>render\<close> hands to \<open>generateVisData\<close>.\<close>

definition visArgs :: "jsnum list list \<Rightarrow> surface \<Rightarrow> vis_args" where
  "visArgs data this =
     \<lparr>v_data = data,
      v_height = height this,
      v_width = width this,
      v_range = range' this,
      v_zScale = zScale this,
      v_pitch = pitch this,
      v_xScale = js_or (xScale this) (xyScale this),
      v_yScale = js_or (yScale this) (xyScale this),
      v_xResolution = js_or (xResolution this) (xyResolution this),
      v_yResolution = js_or (yResolution this) (xyResolution this),
      v_xDomain = orDefault (xDomain this) (xyDomain this),
      v_yDomain = orDefault (yDomain this) (xyDomain this),
      v_zoom = zoom this,
      v_rotationMatrix = rotationMatrix this\<rparr>"

definition renderCanvasSurface :: "quad list \<Rightarrow> surface \<Rightarrow> error + surface" where
  "renderCanvasSurface visData this =
     (case el this of
        None \<Rightarrow> Inl (TypeError ''Cannot read properties of undefined'')
      | Some e \<Rightarrow>
          if toLowerCase (nodeName e) \<noteq> ''canvas''
          then Inl (TypeError ''this.el.getContext is not a function'')
          else Inr (this\<lparr>el := Some (e\<lparr>context2d :=
                 context2d e @ ClearRect (Fin 0) (Fin 0) (el_width e) (el_height e) #
                 concat (map (\<lambda>a. paintQuad (colorFn this (avg a)) (strokeColorFn this (avg a))
                                    (path a)) visData)\<rparr>)\<rparr>))"

definition renderSvgSurface :: "quad list \<Rightarrow> surface \<Rightarrow> error + surface" where
  "renderSvgSurface visData this =
     (case el this of
        None \<Rightarrow> Inl (TypeError ''Cannot read properties of undefined'')
      | Some e \<Rightarrow>
          Inr (this\<lparr>el := Some (e\<lparr>childNodes :=
                 map (\<lambda>a. \<lparr>attr_d = path a, attr_fill = colorFn this (avg a)\<rparr>) visData\<rparr>)\<rparr>))"

text \<open>
  \<open>render\<close>. The time slice is element 0 of what \<open>_computeData\<close> returns; were the field
  empty it would be \<open>undefined\<close>, which the model of \<open>generateVisData\<close> refuses with a
  TypeError. The result is the surface itself (\<open>return this\<close>), in the state the call
  leaves it in; \<open>None\<close> where the sampler does not return.
\<close>

definition render :: "render_options \<Rightarrow> surface \<Rightarrow> (error + surface) option" where
  "render opts this =
     (let time = renderTime opts in
      case computeData time time (Fin 1) this of
        None \<Rightarrow> None
      | Some (Inl e) \<Rightarrow> Some (Inl e)
      | Some (Inr []) \<Rightarrow> Some (Inl (TypeError ''Cannot read properties of undefined''))
      | Some (Inr (data # later)) \<Rightarrow>
          (let visData = generateVisData (visArgs data this) in
           if surfaceType this = Some ''canvas'' then Some (renderCanvasSurface visData this)
           else Some (renderSvgSurface visData this)))"

section \<open>Surface of src/src/surfaces.js\<close>

text \<open>
  The second file defines the class with other options: intervals and a current frame
  instead of domains, resolutions and scales, and a cache for the computed field. Its
  names carry the prefix \<open>surfaces_js\<close>. Its \<open>compute\<close> and \<open>createPlane\<close> take other
  arguments than the functions the spec describes and are not among the sources: they
  are parameters of the methods that call them.
\<close>

record surfaces_js_options =
  j_tagName :: "string option"
  j_fn :: "(jsnum list \<Rightarrow> jsval) option"
  j_el :: "element option"
  j_width :: "jsnum option"
  j_height :: "jsnum option"
  j_colorFn :: "(jsnum \<Rightarrow> string) option"
  j_zoom :: "jsnum option"
  j_yaw :: "jsnum option"
  j_pitch :: "jsnum option"
  j_yInterval :: "(jsnum \<times> jsnum) option"
  j_xInterval :: "(jsnum \<times> jsnum) option"
  j_zInterval :: "(jsnum \<times> jsnum) option"
  j_currentFrame :: "jsnum option"
  j_maxPitch :: "jsnum option"

definition surfaces_js_noOptions :: surfaces_js_options where
  "surfaces_js_noOptions =
     \<lparr>j_tagName = None, j_fn = None, j_el = None, j_width = None, j_height = None,
      j_colorFn = None, j_zoom = None, j_yaw = None, j_pitch = None, j_yInterval = None,
      j_xInterval = None, j_zInterval = None, j_currentFrame = None, j_maxPitch = None\<rparr>"

record surfaces_js_surface = surface_base +
  yInterval :: "jsnum \<times> jsnum"
  xInterval :: "jsnum \<times> jsnum"
  zInterval :: "jsnum \<times> jsnum"
  currentFrame :: jsnum
  cache :: "jsnum list list list option"

definition surfaces_js_defaults :: "surfaces_js_options \<Rightarrow> surfaces_js_surface" where
  "surfaces_js_defaults opts =
     \<lparr>tagName = orDefault (j_tagName opts) ''canvas'',
      el = j_el opts,
      width = orDefault (j_width opts) (Fin 300),
      height = orDefault (j_height opts) (Fin 300),
      zoom = orDefault (j_zoom opts) (Fin 1),
      yaw = orDefault (j_yaw opts) (Fin (1 / 2)),
      pitch = orDefault (j_pitch opts) (Fin (1 / 2)),
      maxPitch = orDefault (j_maxPitch opts) (js_div Math_PI (Fin 2)),
      colorFn = orDefault (j_colorFn opts) (\<lambda>a. ''#333''),
      fn = orDefault (j_fn opts) spacetimeOrigin,
      rotationMatrix = [],
      surfaceType = None,
      yInterval = orDefault (j_yInterval opts) (Fin (- 10), Fin 10),
      xInterval = orDefault (j_xInterval opts) (Fin (- 10), Fin 10),
      zInterval = orDefault (j_zInterval opts) (Fin 0, Fin 10),
      currentFrame = orDefault (j_currentFrame opts) (Fin 0),
      cache = None\<rparr>"

text \<open>The constructor ends with \<open>this.initialize(...arguments)\<close>, which does nothing.\<close>

definition surfaces_js_constructor :: "surfaces_js_options \<Rightarrow> error + surfaces_js_surface" where
  "surfaces_js_constructor opts =
     (let this = surfaces_js_defaults opts;
          this = this\<lparr>rotationMatrix := []\<rparr>;
          this = generateRotation this
      in case ensureElement this of
           Inl e \<Rightarrow> Inl e
         | Inr this \<Rightarrow> setType this)"

record surfaces_js_compute_args =
  k_fn :: "jsnum list \<Rightarrow> jsval"
  k_startTime :: jsnum
  k_maxTime :: jsnum
  k_xInterval :: "jsnum \<times> jsnum"
  k_yInterval :: "jsnum \<times> jsnum"
  k_spaceStep :: jsnum

definition surfaces_js_computeArgs :: "surfaces_js_surface \<Rightarrow> surfaces_js_compute_args" where
  "surfaces_js_computeArgs this =
     \<lparr>k_fn = fn this, k_startTime = currentFrame this, k_maxTime = currentFrame this,
      k_xInterval = xInterval this, k_yInterval = yInterval this, k_spaceStep = Fin 1\<rparr>"

definition surfaces_js_computeData ::
  "(surfaces_js_compute_args \<Rightarrow> error + jsnum list list list) \<Rightarrow> surfaces_js_surface
     \<Rightarrow> error + surfaces_js_surface" where
  "surfaces_js_computeData compute_js this =
     (case compute_js (surfaces_js_computeArgs this) of
        Inl e \<Rightarrow> Inl e
      | Inr field \<Rightarrow> Inr (this\<lparr>cache := Some field\<rparr>))"

text \<open>The object that \<open>render\<close> hands to \<open>createPlane\<close>; \<open>data[0]\<close> of an empty field is \<open>undefined\<close>.\<close>

record plane_args =
  p_data :: "jsnum list list option"
  p_heightFn :: "jsnum \<Rightarrow> jsnum"
  p_zoom :: jsnum
  p_height :: jsnum
  p_width :: jsnum
  p_rotationMatrix :: "jsnum list list"

definition surfaces_js_planeArgs :: "jsnum list list list \<Rightarrow> surfaces_js_surface \<Rightarrow> plane_args" where
  "surfaces_js_planeArgs data this =
     \<lparr>p_data = (case data of [] \<Rightarrow> None | slice # later \<Rightarrow> Some slice),
      p_heightFn = (\<lambda>d. d),
      p_zoom = Fin 1,
      p_height = height this,
      p_width = width this,
      p_rotationMatrix = rotationMatrix this\<rparr>"

definition surfaces_js_renderCanvasSurface ::
  "quad list \<Rightarrow> surfaces_js_surface \<Rightarrow> error + surfaces_js_surface" where
  "surfaces_js_renderCanvasSurface plane this =
     (case el this of
        None \<Rightarrow> Inl (TypeError ''Cannot read properties of undefined'')
      | Some e \<Rightarrow>
          if toLowerCase (nodeName e) \<noteq> ''canvas''
          then Inl (TypeError ''this.el.getContext is not a function'')
          else Inr (this\<lparr>el := Some (e\<lparr>context2d :=
                 context2d e @ ClearRect (Fin 0) (Fin 0) (el_width e) (el_height e) #
                 concat (map (\<lambda>a. paintQuad (colorFn this (avg a)) ''rgba(0, 0, 0, 0.4)''
                                    (path a)) plane)\<rparr>)\<rparr>))"

definition surfaces_js_render ::
  "(surfaces_js_compute_args \<Rightarrow> error + jsnum list list list) \<Rightarrow>
   (plane_args \<Rightarrow> error + quad list) \<Rightarrow> surfaces_js_surface \<Rightarrow> error + surfaces_js_surface" where
  "surfaces_js_render compute_js createPlane this =
     (case (if cache this = None then surfaces_js_computeData compute_js this else Inr this) of
        Inl e \<Rightarrow> Inl e
      | Inr this \<Rightarrow>
          (case cache this of
             None \<Rightarrow> Inl (TypeError ''Cannot read properties of undefined'')
           | Some data \<Rightarrow>
               (case createPlane (surfaces_js_planeArgs data this) of
                  Inl e \<Rightarrow> Inl e
                | Inr plane \<Rightarrow> surfaces_js_renderCanvasSurface plane this)))"

text \<open>
  Sample arguments for concrete runs: a user function that returns its time argument,
  and for src/src/surfaces.js a \<open>compute\<close> that returns the one-row field holding its
  start and end time and a \<open>createPlane\<close> that returns no quads.
\<close>

definition timeOf :: "jsnum list \<Rightarrow> jsval" where
  "timeOf args = (case args of [] \<Rightarrow> JNum NaN | time # rest \<Rightarrow> JNum time)"

definition recordTime :: "surfaces_js_compute_args \<Rightarrow> error + jsnum list list list" where
  "recordTime a = Inr [[[k_startTime a, k_maxTime a]]]"

definition noQuads :: "plane_args \<Rightarrow> error + quad list" where
  "noQuads p = Inr []"

section \<open>The constructor and orient\<close>

lemma toLowerCase_examples:
  "toLowerCase ''CANVAS'' = ''canvas''" "toLowerCase ''svg'' = ''svg''"
  "toLowerCase ''DIV'' = ''div''"
  by code_simp+

lemma js_div_PI_2: "js_div Math_PI (Fin 2) = Fin (pi / 2)"
  by (simp add: Math_PI_def)

lemma orient_fields:
  "yaw (orient orientation this) = orDefault (new_yaw orientation) (yaw this)"
  "maxPitch (orient orientation this) = maxPitch this"
  "pitch (orient orientation this) =
     Math_max (js_neg (maxPitch this))
       (Math_min (maxPitch this) (orDefault (new_pitch orientation) (pitch this)))"
  "rotationMatrix (orient orientation this) =
     generateMatrix (yaw (orient orientation this)) (pitch (orient orientation this))"
  by (simp_all add: orient_def generateRotation_def orDefault_def Let_def)

lemma clamp_characterised:
  assumes "js_le (Fin 0) m" and "p \<noteq> NaN"
  shows "js_le (js_neg m) (Math_max (js_neg m) (Math_min m p))"
    and "js_le (Math_max (js_neg m) (Math_min m p)) m"
    and "js_le (js_neg m) p \<and> js_le p m \<longrightarrow> Math_max (js_neg m) (Math_min m p) = p"
    and "\<not> js_le p m \<longrightarrow> Math_max (js_neg m) (Math_min m p) = m"
    and "\<not> js_le (js_neg m) p \<longrightarrow> Math_max (js_neg m) (Math_min m p) = js_neg m"
  using assms by (cases m; cases p; simp; fail)+

lemmas construct_defs =
  constructor_def defaults_def noOptions_def surfaces_js_constructor_def surfaces_js_defaults_def
  surfaces_js_noOptions_def ensureElement_def createElement_def sizeCanvas_def setType_def
  generateRotation_def orDefault_def document_createElement_canvas_def
  document_createElementNS_svg_def toLowerCase_examples Let_def

lemma ensureElement_keeps:
  assumes "ensureElement this = Inr this'"
  shows "surface_base.more this' = surface_base.more this"
    and "pitch this' = pitch this" and "yaw this' = yaw this" and "maxPitch this' = maxPitch this"
    and "rotationMatrix this' = rotationMatrix this" and "width this' = width this"
    and "height this' = height this" and "zoom this' = zoom this" and "fn this' = fn this"
    and "colorFn this' = colorFn this" and "tagName this' = tagName this"
    and "el this' \<noteq> None"
  using assms
  by (auto simp: ensureElement_def sizeCanvas_def split: option.splits sum.splits if_splits)

lemma setType_keeps:
  assumes "setType this = Inr this'"
  shows "surface_base.more this' = surface_base.more this"
    and "pitch this' = pitch this" and "yaw this' = yaw this" and "maxPitch this' = maxPitch this"
    and "rotationMatrix this' = rotationMatrix this" and "width this' = width this"
    and "height this' = height this" and "zoom this' = zoom this" and "fn this' = fn this"
    and "colorFn this' = colorFn this" and "tagName this' = tagName this"
    and "el this' = el this"
    and "surfaceType this' = map_option (\<lambda>e. toLowerCase (nodeName e)) (el this)"
  using assms
  by (auto simp: setType_def split: option.splits)

lemma constructor_steps:
  assumes "constructor opts = Inr s"
  obtains mid where "ensureElement (generateRotation (defaults opts)) = Inr mid"
    and "setType mid = Inr s"
  using assms by (auto simp: constructor_def Let_def generateRotation_def split: sum.splits)

lemma constructor_base_fields:
  assumes "constructor opts = Inr s"
  shows "pitch s = orDefault (o_pitch opts) (Fin (1 / 2))"
    and "yaw s = orDefault (o_yaw opts) (Fin (1 / 2))"
    and "maxPitch s = orDefault (o_maxPitch opts) (js_div Math_PI (Fin 2))"
    and "width s = orDefault (o_width opts) (Fin 300)"
    and "height s = orDefault (o_height opts) (Fin 300)"
    and "zoom s = orDefault (o_zoom opts) (Fin 1)"
    and "fn s = orDefault (o_fn opts) spacetimeOrigin"
    and "rotationMatrix s = generateMatrix (yaw s) (pitch s)"
proof -
  obtain mid where e: "ensureElement (generateRotation (defaults opts)) = Inr mid"
    and t: "setType mid = Inr s"
    using assms by (rule constructor_steps)
  show "pitch s = orDefault (o_pitch opts) (Fin (1 / 2))"
    and "yaw s = orDefault (o_yaw opts) (Fin (1 / 2))"
    and "maxPitch s = orDefault (o_maxPitch opts) (js_div Math_PI (Fin 2))"
    and "width s = orDefault (o_width opts) (Fin 300)"
    and "height s = orDefault (o_height opts) (Fin 300)"
    and "zoom s = orDefault (o_zoom opts) (Fin 1)"
    and "fn s = orDefault (o_fn opts) spacetimeOrigin"
    and "rotationMatrix s = generateMatrix (yaw s) (pitch s)"
    by (simp_all add: setType_keeps [OF t] ensureElement_keeps [OF e] generateRotation_def
        defaults_def)
qed

lemma more_fields:
  assumes "surface_base.more (a::surface) = surface_base.more b"
  shows "xyScale a = xyScale b" "xyDomain a = xyDomain b" "xyResolution a = xyResolution b"
    "zScale a = zScale b" "range' a = range' b" "strokeColorFn a = strokeColorFn b"
    "xDomain a = xDomain b" "yDomain a = yDomain b" "xResolution a = xResolution b"
    "yResolution a = yResolution b" "xScale a = xScale b" "yScale a = yScale b"
  using assms by (cases a; cases b; simp)+

lemma constructor_ext_fields:
  assumes "constructor opts = Inr s"
  shows "xyScale s = orDefault (o_xyScale opts) (Fin 300)"
    and "xyDomain s = orDefault (o_xyDomain opts) (Fin (- 10), Fin 10)"
    and "xyResolution s = orDefault (o_xyResolution opts) (Fin 1)"
    and "zScale s = orDefault (o_zScale opts) (Fin 1)"
    and "range' s = orDefault (o_range opts) (Fin (- 10), Fin 10)"
    and "xDomain s = o_xDomain opts" and "yDomain s = o_yDomain opts"
    and "xResolution s = o_xResolution opts" and "yResolution s = o_yResolution opts"
    and "xScale s = o_xScale opts" and "yScale s = o_yScale opts"
proof -
  obtain mid where e: "ensureElement (generateRotation (defaults opts)) = Inr mid"
    and t: "setType mid = Inr s"
    using assms by (rule constructor_steps)
  have "surface_base.more s = surface_base.more (defaults opts)"
    by (simp add: setType_keeps(1) [OF t] ensureElement_keeps(1) [OF e] generateRotation_def)
  note m = more_fields [OF this]
  show "xyScale s = orDefault (o_xyScale opts) (Fin 300)"
    and "xyDomain s = orDefault (o_xyDomain opts) (Fin (- 10), Fin 10)"
    and "xyResolution s = orDefault (o_xyResolution opts) (Fin 1)"
    and "zScale s = orDefault (o_zScale opts) (Fin 1)"
    and "range' s = orDefault (o_range opts) (Fin (- 10), Fin 10)"
    and "xDomain s = o_xDomain opts" and "yDomain s = o_yDomain opts"
    and "xResolution s = o_xResolution opts" and "yResolution s = o_yResolution opts"
    and "xScale s = o_xScale opts" and "yScale s = o_yScale opts"
    by (simp_all add: m defaults_def)
qed

lemma createElement_other:
  "tag \<noteq> ''svg'' \<Longrightarrow> tag \<noteq> ''canvas'' \<Longrightarrow>
   createElement tag = Inl (Error ''The element must be a canvas or svg.'')"
  by (simp add: createElement_def)

lemma sizeCanvas_el: "el this = Some e \<Longrightarrow> \<exists>y. el (sizeCanvas this) = Some y"
  by (simp add: sizeCanvas_def)

lemma setType_succeeds: "el this \<noteq> None \<Longrightarrow> \<not> isl (setType this)"
  by (auto simp: setType_def split: option.splits)

lemma ensureElement_succeeds:
  assumes "el this \<noteq> None \<or> tagName this = ''svg'' \<or> tagName this = ''canvas''"
  shows "\<exists>mid. ensureElement this = Inr mid \<and> el mid \<noteq> None"
proof (cases "el this")
  case None
  with assms show ?thesis
    by (auto simp: ensureElement_def createElement_def intro: sizeCanvas_el)
next
  case (Some e)
  then show ?thesis
    by (auto simp: ensureElement_def intro: sizeCanvas_el)
qed

lemma ensureElement_fails:
  assumes "el this = None" and "tagName this \<noteq> ''svg''" and "tagName this \<noteq> ''canvas''"
  shows "ensureElement this = Inl (Error ''The element must be a canvas or svg.'')"
  using assms by (simp add: ensureElement_def createElement_def)

lemma constructor_fails:
  assumes "o_el opts = None" and "orDefault (o_tagName opts) ''canvas'' \<noteq> ''svg''"
    and "orDefault (o_tagName opts) ''canvas'' \<noteq> ''canvas''"
  shows "constructor opts = Inl (Error ''The element must be a canvas or svg.'')"
proof -
  have "ensureElement (generateRotation (defaults opts\<lparr>rotationMatrix := []\<rparr>))
          = Inl (Error ''The element must be a canvas or svg.'')"
    using assms by (intro ensureElement_fails) (simp_all add: generateRotation_def defaults_def)
  then show ?thesis
    by (simp add: constructor_def Let_def)
qed

lemma constructor_succeeds:
  assumes "o_el opts \<noteq> None \<or> orDefault (o_tagName opts) ''canvas'' = ''svg''
           \<or> orDefault (o_tagName opts) ''canvas'' = ''canvas''"
  shows "\<not> isl (constructor opts)"
proof -
  let ?g = "generateRotation (defaults opts\<lparr>rotationMatrix := []\<rparr>)"
  have "el ?g \<noteq> None \<or> tagName ?g = ''svg'' \<or> tagName ?g = ''canvas''"
    using assms by (simp add: generateRotation_def defaults_def)
  then obtain mid where "ensureElement ?g = Inr mid" and "el mid \<noteq> None"
    using ensureElement_succeeds by blast
  then show ?thesis
    using setType_succeeds [of mid] by (simp add: constructor_def Let_def)
qed

lemma surfaces_js_more_fields:
  assumes "surface_base.more (a::surfaces_js_surface) = surface_base.more b"
  shows "xInterval a = xInterval b" "yInterval a = yInterval b" "zInterval a = zInterval b"
    "currentFrame a = currentFrame b" "cache a = cache b"
  using assms by (cases a; cases b; simp)+

lemma surfaces_js_constructor_steps:
  assumes "surfaces_js_constructor opts = Inr s"
  obtains mid where "ensureElement (generateRotation (surfaces_js_defaults opts)) = Inr mid"
    and "setType mid = Inr s"
  using assms
  by (auto simp: surfaces_js_constructor_def Let_def generateRotation_def split: sum.splits)

lemma surfaces_js_constructor_fields:
  assumes "surfaces_js_constructor opts = Inr s"
  shows "pitch s = orDefault (j_pitch opts) (Fin (1 / 2))"
    and "yaw s = orDefault (j_yaw opts) (Fin (1 / 2))"
    and "maxPitch s = orDefault (j_maxPitch opts) (js_div Math_PI (Fin 2))"
    and "width s = orDefault (j_width opts) (Fin 300)"
    and "height s = orDefault (j_height opts) (Fin 300)"
    and "zoom s = orDefault (j_zoom opts) (Fin 1)"
    and "fn s = orDefault (j_fn opts) spacetimeOrigin"
    and "rotationMatrix s = generateMatrix (yaw s) (pitch s)"
    and "xInterval s = orDefault (j_xInterval opts) (Fin (- 10), Fin 10)"
    and "yInterval s = orDefault (j_yInterval opts) (Fin (- 10), Fin 10)"
    and "zInterval s = orDefault (j_zInterval opts) (Fin 0, Fin 10)"
    and "currentFrame s = orDefault (j_currentFrame opts) (Fin 0)"
    and "cache s = None"
proof -
  obtain mid where e: "ensureElement (generateRotation (surfaces_js_defaults opts)) = Inr mid"
    and t: "setType mid = Inr s"
    using assms by (rule surfaces_js_constructor_steps)
  have "surface_base.more s = surface_base.more (surfaces_js_defaults opts)"
    by (simp add: setType_keeps(1) [OF t] ensureElement_keeps(1) [OF e] generateRotation_def)
  note m = surfaces_js_more_fields [OF this]
  show "pitch s = orDefault (j_pitch opts) (Fin (1 / 2))"
    and "yaw s = orDefault (j_yaw opts) (Fin (1 / 2))"
    and "maxPitch s = orDefault (j_maxPitch opts) (js_div Math_PI (Fin 2))"
    and "width s = orDefault (j_width opts) (Fin 300)"
    and "height s = orDefault (j_height opts) (Fin 300)"
    and "zoom s = orDefault (j_zoom opts) (Fin 1)"
    and "fn s = orDefault (j_fn opts) spacetimeOrigin"
    and "rotationMatrix s = generateMatrix (yaw s) (pitch s)"
    and "xInterval s = orDefault (j_xInterval opts) (Fin (- 10), Fin 10)"
    and "yInterval s = orDefault (j_yInterval opts) (Fin (- 10), Fin 10)"
    and "zInterval s = orDefault (j_zInterval opts) (Fin 0, Fin 10)"
    and "currentFrame s = orDefault (j_currentFrame opts) (Fin 0)"
    and "cache s = None"
    by (simp_all add: m setType_keeps [OF t] ensureElement_keeps [OF e] generateRotation_def
        surfaces_js_defaults_def)
qed

lemma surfaces_js_constructor_fails:
  assumes "j_el opts = None" and "orDefault (j_tagName opts) ''canvas'' \<noteq> ''svg''"
    and "orDefault (j_tagName opts) ''canvas'' \<noteq> ''canvas''"
  shows "surfaces_js_constructor opts = Inl (Error ''The element must be a canvas or svg.'')"
proof -
  have "ensureElement (generateRotation (surfaces_js_defaults opts\<lparr>rotationMatrix := []\<rparr>))
          = Inl (Error ''The element must be a canvas or svg.'')"
    using assms
    by (intro ensureElement_fails) (simp_all add: generateRotation_def surfaces_js_defaults_def)
  then show ?thesis
    by (simp add: surfaces_js_constructor_def Let_def)
qed

lemma surfaces_js_constructor_succeeds:
  assumes "j_el opts \<noteq> None \<or> orDefault (j_tagName opts) ''canvas'' = ''svg''
           \<or> orDefault (j_tagName opts) ''canvas'' = ''canvas''"
  shows "\<not> isl (surfaces_js_constructor opts)"
proof -
  let ?g = "generateRotation (surfaces_js_defaults opts\<lparr>rotationMatrix := []\<rparr>)"
  have "el ?g \<noteq> None \<or> tagName ?g = ''svg'' \<or> tagName ?g = ''canvas''"
    using assms by (simp add: generateRotation_def surfaces_js_defaults_def)
  then obtain mid where "ensureElement ?g = Inr mid" and "el mid \<noteq> None"
    using ensureElement_succeeds by blast
  then show ?thesis
    using setType_succeeds [of mid] by (simp add: surfaces_js_constructor_def Let_def)
qed

lemma constructor_error:
  "isl (constructor opts) \<Longrightarrow>
   constructor opts = Inl (Error ''The element must be a canvas or svg.'')"
  using constructor_succeeds [of opts] constructor_fails [of opts] by blast

lemma surfaces_js_constructor_error:
  "isl (surfaces_js_constructor opts) \<Longrightarrow>
   surfaces_js_constructor opts = Inl (Error ''The element must be a canvas or svg.'')"
  using surfaces_js_constructor_succeeds [of opts] surfaces_js_constructor_fails [of opts]
  by blast

lemma constructor_noOptions: "\<not> isl (constructor noOptions)"
  by (rule constructor_succeeds) (simp add: noOptions_def orDefault_def)

lemma surfaces_js_constructor_noOptions: "\<not> isl (surfaces_js_constructor surfaces_js_noOptions)"
  by (rule surfaces_js_constructor_succeeds) (simp add: surfaces_js_noOptions_def orDefault_def)

section \<open>Claims about orient\<close>

text \<open>
  Claim C3, as amended. \<open>orient\<close> stores the requested pitch (the argument's pitch, or the
  current one when the argument has none) clamped to the interval from \<open>-maxPitch\<close> to
  \<open>maxPitch\<close>, whenever \<open>maxPitch\<close> is at least 0 and the requested pitch is not NaN: the
  stored pitch lies in the interval, it is the requested pitch when that lies in the
  interval, \<open>maxPitch\<close> when the request is above and \<open>-maxPitch\<close> when it is below. With
  \<open>maxPitch = \<pi>/2\<close> a requested pitch of 10 is stored as \<open>\<pi>/2\<close>. The rotation matrix is
  then rebuilt from the new yaw and the stored pitch.
\<close>

theorem orient_clamps_pitch:
  assumes "js_le (Fin 0) (maxPitch this)"
    and "requested = orDefault (new_pitch orientation) (pitch this)"
    and "requested \<noteq> NaN"
  shows "js_le (js_neg (maxPitch this)) (pitch (orient orientation this)) \<and>
         js_le (pitch (orient orientation this)) (maxPitch this) \<and>
         (js_le (js_neg (maxPitch this)) requested \<and> js_le requested (maxPitch this)
            \<longrightarrow> pitch (orient orientation this) = requested) \<and>
         (\<not> js_le requested (maxPitch this)
            \<longrightarrow> pitch (orient orientation this) = maxPitch this) \<and>
         (\<not> js_le (js_neg (maxPitch this)) requested
            \<longrightarrow> pitch (orient orientation this) = js_neg (maxPitch this)) \<and>
         (maxPitch this = js_div Math_PI (Fin 2) \<and> requested = Fin 10
            \<longrightarrow> pitch (orient orientation this) = js_div Math_PI (Fin 2)) \<and>
         rotationMatrix (orient orientation this) =
           generateMatrix (orDefault (new_yaw orientation) (yaw this))
             (pitch (orient orientation this))"
proof -
  have ten: "\<not> (10::real) \<le> pi / 2"
    using pi_less_4 by simp
  have "maxPitch this = js_div Math_PI (Fin 2) \<and> requested = Fin 10
          \<longrightarrow> pitch (orient orientation this) = js_div Math_PI (Fin 2)"
    using assms(2) ten by (simp add: orient_fields js_div_PI_2 flip: assms(2))
  then show ?thesis
    using clamp_characterised [OF assms(1) assms(3)] assms(2)
    by (simp add: orient_fields)
qed

theorem orient_clamps_pitch_witness:
  "pitch (orient \<lparr>new_yaw = None, new_pitch = Some (Fin 10)\<rparr> (projr (constructor noOptions)))
     = js_div Math_PI (Fin 2) \<and>
   pitch (orient \<lparr>new_yaw = None, new_pitch = Some (Fin 10)\<rparr> (projr (constructor noOptions)))
     \<noteq> Fin 10 \<and>
   pitch (orient \<lparr>new_yaw = None, new_pitch = Some (Fin (1 / 4))\<rparr> (projr (constructor noOptions)))
     = Fin (1 / 4)"
proof -
  let ?s = "projr (constructor noOptions)"
  have m: "maxPitch ?s = js_div Math_PI (Fin 2)"
    by (simp add: construct_defs)
  have le: "js_le (Fin 0) (maxPitch ?s)"
    by (simp add: m js_div_PI_2)
  have small: "(1::real) / 4 \<le> pi / 2" "- (pi / 2) \<le> (1::real) / 4"
    using pi_ge_two by simp_all
  have ten: "\<not> (10::real) \<le> pi / 2"
    using pi_less_4 by simp
  show ?thesis
    using orient_clamps_pitch [OF le, of "Fin 10" "\<lparr>new_yaw = None, new_pitch = Some (Fin 10)\<rparr>"]
      orient_clamps_pitch [OF le, of "Fin (1 / 4)" "\<lparr>new_yaw = None, new_pitch = Some (Fin (1 / 4))\<rparr>"]
      small ten
    by (simp add: orDefault_def m js_div_PI_2)
qed

text \<open>
  The claim fails for a negative \<open>maxPitch\<close>: with \<open>maxPitch = -1\<close>, \<open>orient({pitch: 2})\<close>
  stores \<open>Math.max(1, Math.min(-1, 2)) = 1\<close>, which exceeds \<open>maxPitch\<close>. It fails for a
  NaN pitch as well, which is stored as NaN.
\<close>

theorem orient_negative_maxPitch_counterexample:
  "\<not> isl (constructor (noOptions\<lparr>o_maxPitch := Some (Fin (- 1))\<rparr>)) \<and>
   maxPitch (projr (constructor (noOptions\<lparr>o_maxPitch := Some (Fin (- 1))\<rparr>))) = Fin (- 1) \<and>
   pitch (orient \<lparr>new_yaw = None, new_pitch = Some (Fin 2)\<rparr>
            (projr (constructor (noOptions\<lparr>o_maxPitch := Some (Fin (- 1))\<rparr>)))) = Fin 1 \<and>
   \<not> js_le (pitch (orient \<lparr>new_yaw = None, new_pitch = Some (Fin 2)\<rparr>
                   (projr (constructor (noOptions\<lparr>o_maxPitch := Some (Fin (- 1))\<rparr>)))))
          (maxPitch (projr (constructor (noOptions\<lparr>o_maxPitch := Some (Fin (- 1))\<rparr>)))) \<and>
   pitch (orient \<lparr>new_yaw = None, new_pitch = Some NaN\<rparr> (projr (constructor noOptions))) = NaN"
  by (simp add: construct_defs orient_fields js_div_PI_2)

text \<open>
  Claim C10, as amended. Every call of \<open>orient\<close> clamps the stored pitch, also when its
  argument has no pitch: after the call the pitch lies between \<open>-maxPitch\<close> and
  \<open>maxPitch\<close>, provided \<open>maxPitch\<close> is at least 0 and the pitch is not NaN. The
  constructor, in both files, does not clamp: the surface keeps the pitch it was given,
  and the rotation matrix built from it.
\<close>

theorem orient_clamps_constructor_does_not:
  "(js_le (Fin 0) (maxPitch this) \<and> orDefault (new_pitch orientation) (pitch this) \<noteq> NaN
      \<longrightarrow> js_le (js_neg (maxPitch this)) (pitch (orient orientation this)) \<and>
          js_le (pitch (orient orientation this)) (maxPitch this)) \<and>
   (new_pitch orientation = None
      \<longrightarrow> pitch (orient orientation this)
            = Math_max (js_neg (maxPitch this)) (Math_min (maxPitch this) (pitch this))) \<and>
   (constructor opts = Inr s
      \<longrightarrow> pitch s = orDefault (o_pitch opts) (Fin (1 / 2)) \<and>
          rotationMatrix s = generateMatrix (yaw s) (orDefault (o_pitch opts) (Fin (1 / 2)))) \<and>
   (surfaces_js_constructor jopts = Inr sj
      \<longrightarrow> pitch sj = orDefault (j_pitch jopts) (Fin (1 / 2)) \<and>
          rotationMatrix sj = generateMatrix (yaw sj) (orDefault (j_pitch jopts) (Fin (1 / 2))))"
proof -
  have "js_le (js_neg (maxPitch this)) (pitch (orient orientation this)) \<and>
        js_le (pitch (orient orientation this)) (maxPitch this)"
    if "js_le (Fin 0) (maxPitch this)" "orDefault (new_pitch orientation) (pitch this) \<noteq> NaN"
    using clamp_characterised(1,2) [OF that] by (simp add: orient_fields)
  moreover have "pitch (orient orientation this)
            = Math_max (js_neg (maxPitch this)) (Math_min (maxPitch this) (pitch this))"
    if "new_pitch orientation = None"
    using that by (simp add: orient_fields orDefault_def)
  moreover have "pitch s = orDefault (o_pitch opts) (Fin (1 / 2)) \<and>
          rotationMatrix s = generateMatrix (yaw s) (orDefault (o_pitch opts) (Fin (1 / 2)))"
    if "constructor opts = Inr s"
    using constructor_base_fields [OF that] by simp
  moreover have "pitch sj = orDefault (j_pitch jopts) (Fin (1 / 2)) \<and>
          rotationMatrix sj = generateMatrix (yaw sj) (orDefault (j_pitch jopts) (Fin (1 / 2)))"
    if "surfaces_js_constructor jopts = Inr sj"
    using surfaces_js_constructor_fields [OF that] by simp
  ultimately show ?thesis
    by blast
qed

theorem orient_clamps_constructor_does_not_witness:
  "pitch (projr (constructor (noOptions\<lparr>o_pitch := Some (Fin 3)\<rparr>))) = Fin 3 \<and>
   rotationMatrix (projr (constructor (noOptions\<lparr>o_pitch := Some (Fin 3)\<rparr>)))
     = generateMatrix (Fin (1 / 2)) (Fin 3) \<and>
   \<not> js_le (Fin 3) (maxPitch (projr (constructor (noOptions\<lparr>o_pitch := Some (Fin 3)\<rparr>)))) \<and>
   pitch (projr (surfaces_js_constructor (surfaces_js_noOptions\<lparr>j_pitch := Some (Fin (- 3))\<rparr>)))
     = Fin (- 3) \<and>
   js_le (pitch (orient \<lparr>new_yaw = Some (Fin 1), new_pitch = None\<rparr>
                  (projr (constructor (noOptions\<lparr>o_pitch := Some (Fin 3)\<rparr>)))))
         (maxPitch (projr (constructor (noOptions\<lparr>o_pitch := Some (Fin 3)\<rparr>)))) \<and>
   pitch (orient \<lparr>new_yaw = Some (Fin 1), new_pitch = None\<rparr>
            (projr (constructor (noOptions\<lparr>o_pitch := Some (Fin 3)\<rparr>)))) = Fin (pi / 2)"
proof -
  let ?opts = "noOptions\<lparr>o_pitch := Some (Fin 3)\<rparr>"
  let ?jopts = "surfaces_js_noOptions\<lparr>j_pitch := Some (Fin (- 3))\<rparr>"
  let ?s = "projr (constructor ?opts)"
  let ?sj = "projr (surfaces_js_constructor ?jopts)"
  have "\<not> isl (constructor ?opts)"
    by (rule constructor_succeeds) (simp add: noOptions_def orDefault_def)
  then have a: "constructor ?opts = Inr ?s"
    by simp
  have "\<not> isl (surfaces_js_constructor ?jopts)"
    by (rule surfaces_js_constructor_succeeds) (simp add: surfaces_js_noOptions_def orDefault_def)
  then have b: "surfaces_js_constructor ?jopts = Inr ?sj"
    by simp
  have m: "maxPitch ?s = Fin (pi / 2)" and y: "yaw ?s = Fin (1 / 2)" and p: "pitch ?s = Fin 3"
    using constructor_base_fields [OF a] by (simp_all add: noOptions_def orDefault_def js_div_PI_2)
  have three: "\<not> (3::real) \<le> pi / 2"
    using pi_less_4 by simp
  show ?thesis
    using orient_clamps_constructor_does_not
      [of ?s "\<lparr>new_yaw = Some (Fin 1), new_pitch = None\<rparr>" ?opts ?s ?jopts ?sj] a b three
    by (simp add: orDefault_def m y p)
qed

text \<open>
  The claim fails for a negative \<open>maxPitch\<close> and for a NaN pitch: with \<open>maxPitch = -1\<close>
  and the default pitch, \<open>orient({})\<close> stores 1; with the pitch NaN it stores NaN.
\<close>

theorem orient_omitted_pitch_counterexample:
  "maxPitch (projr (constructor (noOptions\<lparr>o_maxPitch := Some (Fin (- 1))\<rparr>))) = Fin (- 1) \<and>
   pitch (orient \<lparr>new_yaw = None, new_pitch = None\<rparr>
            (projr (constructor (noOptions\<lparr>o_maxPitch := Some (Fin (- 1))\<rparr>)))) = Fin 1 \<and>
   \<not> js_le (Fin 1) (Fin (- 1)) \<and>
   pitch (orient \<lparr>new_yaw = None, new_pitch = None\<rparr>
            (projr (surfaces_js_constructor (surfaces_js_noOptions\<lparr>j_pitch := Some NaN\<rparr>)))) = NaN \<and>
   \<not> js_le NaN
         (maxPitch (projr (surfaces_js_constructor (surfaces_js_noOptions\<lparr>j_pitch := Some NaN\<rparr>))))"
  by (simp add: construct_defs orient_fields js_div_PI_2)

section \<open>Claims about the constructor\<close>

text \<open>
  Claim C5, as amended. The constructor validates neither resolution nor domain: in both
  files it succeeds whenever an element is supplied or the tag name is \<open>canvas\<close> or
  \<open>svg\<close>, and the surface holds the resolutions and the domains (intervals) exactly as
  they were passed, whatever their values.
\<close>

theorem constructor_validates_nothing:
  assumes "o_el opts \<noteq> None \<or> orDefault (o_tagName opts) ''canvas'' = ''svg''
           \<or> orDefault (o_tagName opts) ''canvas'' = ''canvas''"
    and "j_el jopts \<noteq> None \<or> orDefault (j_tagName jopts) ''canvas'' = ''svg''
           \<or> orDefault (j_tagName jopts) ''canvas'' = ''canvas''"
  shows "\<not> isl (constructor opts) \<and>
         xyResolution (projr (constructor opts)) = orDefault (o_xyResolution opts) (Fin 1) \<and>
         xResolution (projr (constructor opts)) = o_xResolution opts \<and>
         yResolution (projr (constructor opts)) = o_yResolution opts \<and>
         xyDomain (projr (constructor opts)) = orDefault (o_xyDomain opts) (Fin (- 10), Fin 10) \<and>
         xDomain (projr (constructor opts)) = o_xDomain opts \<and>
         yDomain (projr (constructor opts)) = o_yDomain opts \<and>
         \<not> isl (surfaces_js_constructor jopts) \<and>
         xInterval (projr (surfaces_js_constructor jopts))
           = orDefault (j_xInterval jopts) (Fin (- 10), Fin 10) \<and>
         yInterval (projr (surfaces_js_constructor jopts))
           = orDefault (j_yInterval jopts) (Fin (- 10), Fin 10)"
proof -
  have a: "\<not> isl (constructor opts)"
    using assms(1) by (rule constructor_succeeds)
  then have "constructor opts = Inr (projr (constructor opts))"
    by simp
  note f = constructor_ext_fields [OF this]
  have b: "\<not> isl (surfaces_js_constructor jopts)"
    using assms(2) by (rule surfaces_js_constructor_succeeds)
  then have "surfaces_js_constructor jopts = Inr (projr (surfaces_js_constructor jopts))"
    by simp
  note g = surfaces_js_constructor_fields [OF this]
  show ?thesis
    using a b f g by simp
qed

theorem constructor_validates_nothing_witness:
  "\<not> isl (constructor (noOptions\<lparr>o_xyResolution := Some (Fin 0), o_xDomain := Some (Fin 5, Fin 5)\<rparr>)) \<and>
   xyResolution
     (projr (constructor (noOptions\<lparr>o_xyResolution := Some (Fin 0), o_xDomain := Some (Fin 5, Fin 5)\<rparr>)))
     = Fin 0 \<and>
   xDomain
     (projr (constructor (noOptions\<lparr>o_xyResolution := Some (Fin 0), o_xDomain := Some (Fin 5, Fin 5)\<rparr>)))
     = Some (Fin 5, Fin 5) \<and>
   \<not> isl (surfaces_js_constructor (surfaces_js_noOptions\<lparr>j_xInterval := Some (Fin 1, Fin 0)\<rparr>)) \<and>
   xInterval (projr (surfaces_js_constructor (surfaces_js_noOptions\<lparr>j_xInterval := Some (Fin 1, Fin 0)\<rparr>)))
     = (Fin 1, Fin 0)"
  using constructor_validates_nothing
    [of "noOptions\<lparr>o_xyResolution := Some (Fin 0), o_xDomain := Some (Fin 5, Fin 5)\<rparr>"
        "surfaces_js_noOptions\<lparr>j_xInterval := Some (Fin 1, Fin 0)\<rparr>"]
  by (simp add: noOptions_def surfaces_js_noOptions_def orDefault_def)

text \<open>
  The claim fails: a resolution of -1 and a domain from 10 to -10 are accepted by the
  constructor and stored.
\<close>

theorem invalid_config_accepted_counterexample:
  "\<not> isl (constructor (noOptions\<lparr>o_xyResolution := Some (Fin (- 1)),
                                 o_xyDomain := Some (Fin 10, Fin (- 10))\<rparr>)) \<and>
   xyResolution (projr (constructor (noOptions\<lparr>o_xyResolution := Some (Fin (- 1)),
                                               o_xyDomain := Some (Fin 10, Fin (- 10))\<rparr>)))
     = Fin (- 1) \<and>
   xyDomain (projr (constructor (noOptions\<lparr>o_xyResolution := Some (Fin (- 1)),
                                           o_xyDomain := Some (Fin 10, Fin (- 10))\<rparr>)))
     = (Fin 10, Fin (- 10))"
  by (simp add: construct_defs)

text \<open>
  Claim C7, as amended. A surface holds every option it was given and the default for
  every option it was not. The defaults are width 300, height 300, zoom 1, yaw 0.5,
  pitch 0.5, \<open>maxPitch = \<pi>/2\<close> and \<open>fn = Surface.spacetimeOrigin\<close>, which returns the
  one-sample field \<open>[[[0]]]\<close> (read as the number 0) whatever its arguments; in part_000
  the shared domain is [-10, 10], the shared resolution 1, \<open>zScale\<close> 1 and the shared
  scale \<open>xyScale\<close> 300, with no per-axis domain, resolution or scale; in surfaces.js the
  x and y intervals are [-10, 10] and the current frame 0, and there is neither a
  resolution nor a scale.
\<close>

theorem constructor_defaults:
  assumes "constructor opts = Inr s" and "surfaces_js_constructor jopts = Inr sj"
  shows "width s = orDefault (o_width opts) (Fin 300) \<and>
         height s = orDefault (o_height opts) (Fin 300) \<and>
         zoom s = orDefault (o_zoom opts) (Fin 1) \<and>
         yaw s = orDefault (o_yaw opts) (Fin (1 / 2)) \<and>
         pitch s = orDefault (o_pitch opts) (Fin (1 / 2)) \<and>
         maxPitch s = orDefault (o_maxPitch opts) (js_div Math_PI (Fin 2)) \<and>
         xyDomain s = orDefault (o_xyDomain opts) (Fin (- 10), Fin 10) \<and>
         xDomain s = o_xDomain opts \<and> yDomain s = o_yDomain opts \<and>
         xyResolution s = orDefault (o_xyResolution opts) (Fin 1) \<and>
         xResolution s = o_xResolution opts \<and> yResolution s = o_yResolution opts \<and>
         xyScale s = orDefault (o_xyScale opts) (Fin 300) \<and>
         xScale s = o_xScale opts \<and> yScale s = o_yScale opts \<and>
         zScale s = orDefault (o_zScale opts) (Fin 1) \<and>
         fn s = orDefault (o_fn opts) spacetimeOrigin \<and>
         width sj = orDefault (j_width jopts) (Fin 300) \<and>
         height sj = orDefault (j_height jopts) (Fin 300) \<and>
         zoom sj = orDefault (j_zoom jopts) (Fin 1) \<and>
         yaw sj = orDefault (j_yaw jopts) (Fin (1 / 2)) \<and>
         pitch sj = orDefault (j_pitch jopts) (Fin (1 / 2)) \<and>
         maxPitch sj = orDefault (j_maxPitch jopts) (js_div Math_PI (Fin 2)) \<and>
         xInterval sj = orDefault (j_xInterval jopts) (Fin (- 10), Fin 10) \<and>
         yInterval sj = orDefault (j_yInterval jopts) (Fin (- 10), Fin 10) \<and>
         currentFrame sj = orDefault (j_currentFrame jopts) (Fin 0) \<and>
         fn sj = orDefault (j_fn jopts) spacetimeOrigin \<and>
         spacetimeOrigin args = JArr [JArr [JArr [JNum (Fin 0)]]] \<and>
         ToNumber (spacetimeOrigin args) = Fin 0"
  using constructor_base_fields [OF assms(1)] constructor_ext_fields [OF assms(1)]
    surfaces_js_constructor_fields [OF assms(2)]
  by (simp add: spacetimeOrigin_def)

theorem constructor_defaults_witness:
  "width (projr (constructor noOptions)) = Fin 300 \<and>
   height (projr (constructor noOptions)) = Fin 300 \<and>
   zoom (projr (constructor noOptions)) = Fin 1 \<and>
   yaw (projr (constructor noOptions)) = Fin (1 / 2) \<and>
   pitch (projr (constructor noOptions)) = Fin (1 / 2) \<and>
   maxPitch (projr (constructor noOptions)) = Fin (pi / 2) \<and>
   xyDomain (projr (constructor noOptions)) = (Fin (- 10), Fin 10) \<and>
   xyResolution (projr (constructor noOptions)) = Fin 1 \<and>
   xyScale (projr (constructor noOptions)) = Fin 300 \<and>
   xScale (projr (constructor noOptions)) = None \<and>
   yScale (projr (constructor noOptions)) = None \<and>
   zScale (projr (constructor noOptions)) = Fin 1 \<and>
   fn (projr (constructor noOptions)) [Fin 0, Fin 1, Fin 2] = JArr [JArr [JArr [JNum (Fin 0)]]] \<and>
   xInterval (projr (surfaces_js_constructor surfaces_js_noOptions)) = (Fin (- 10), Fin 10) \<and>
   yInterval (projr (surfaces_js_constructor surfaces_js_noOptions)) = (Fin (- 10), Fin 10) \<and>
   currentFrame (projr (surfaces_js_constructor surfaces_js_noOptions)) = Fin 0"
proof -
  have a: "constructor noOptions = Inr (projr (constructor noOptions))"
    using constructor_noOptions by simp
  have b: "surfaces_js_constructor surfaces_js_noOptions
             = Inr (projr (surfaces_js_constructor surfaces_js_noOptions))"
    using surfaces_js_constructor_noOptions by simp
  show ?thesis
    using constructor_defaults [OF a b, of "[Fin 0, Fin 1, Fin 2]"]
    by (simp add: noOptions_def surfaces_js_noOptions_def orDefault_def js_div_PI_2)
qed

text \<open>
  The claim fails on the scale: with no options the shared scale is 300, not 1, and
  there is no per-axis scale, so \<open>render\<close> passes 300 for both.
\<close>

theorem default_scale_counterexample:
  "xyScale (projr (constructor noOptions)) = Fin 300 \<and>
   xyScale (projr (constructor noOptions)) \<noteq> Fin 1 \<and>
   xScale (projr (constructor noOptions)) = None \<and>
   yScale (projr (constructor noOptions)) = None \<and>
   v_xScale (visArgs [] (projr (constructor noOptions))) = Fin 300 \<and>
   v_yScale (visArgs [] (projr (constructor noOptions))) = Fin 300"
  by (simp add: construct_defs visArgs_def)

lemma constructor_supplied_element:
  assumes "o_el opts = Some e"
  shows "\<not> isl (constructor opts)"
    and "surfaceType (projr (constructor opts)) = Some (toLowerCase (nodeName e))"
    and "tagName (projr (constructor opts)) = orDefault (o_tagName opts) ''canvas''"
  using assms
  by (simp_all add: constructor_def defaults_def generateRotation_def ensureElement_def
      sizeCanvas_def setType_def Let_def)

lemma constructor_created_element:
  assumes "o_el opts = None"
    and "orDefault (o_tagName opts) ''canvas'' = ''canvas'' \<or> orDefault (o_tagName opts) ''canvas'' = ''svg''"
  shows "\<not> isl (constructor opts)"
    and "surfaceType (projr (constructor opts)) = Some (orDefault (o_tagName opts) ''canvas'')"
  using assms
  by (auto simp: constructor_def defaults_def generateRotation_def ensureElement_def
      createElement_def sizeCanvas_def setType_def Let_def document_createElement_canvas_def
      document_createElementNS_svg_def toLowerCase_examples)

lemma surfaces_js_constructor_supplied_element:
  assumes "j_el opts = Some e"
  shows "\<not> isl (surfaces_js_constructor opts)"
    and "surfaceType (projr (surfaces_js_constructor opts)) = Some (toLowerCase (nodeName e))"
    and "tagName (projr (surfaces_js_constructor opts)) = orDefault (j_tagName opts) ''canvas''"
  using assms
  by (simp_all add: surfaces_js_constructor_def surfaces_js_defaults_def generateRotation_def
      ensureElement_def sizeCanvas_def setType_def Let_def)

lemma surfaces_js_constructor_created_element:
  assumes "j_el opts = None"
    and "orDefault (j_tagName opts) ''canvas'' = ''canvas'' \<or> orDefault (j_tagName opts) ''canvas'' = ''svg''"
  shows "\<not> isl (surfaces_js_constructor opts)"
    and "surfaceType (projr (surfaces_js_constructor opts)) = Some (orDefault (j_tagName opts) ''canvas'')"
  using assms
  by (auto simp: surfaces_js_constructor_def surfaces_js_defaults_def generateRotation_def
      ensureElement_def createElement_def sizeCanvas_def setType_def Let_def
      document_createElement_canvas_def document_createElementNS_svg_def toLowerCase_examples)

text \<open>
  Claim C9, as amended. \<open>_createElement\<close> throws for every tag name other than \<open>svg\<close> and
  \<open>canvas\<close>, so constructing a surface with such a tag name and no element fails at once,
  in both files; with the tag name \<open>svg\<close> or \<open>canvas\<close> and no element the surface gets an
  element of that kind. When a canvas or an svg element is supplied, no element is
  created: the constructor succeeds and the surface has the kind of the supplied
  element, whatever the tag name says.
\<close>

theorem unsupported_tag_fails:
  "(tag \<noteq> ''svg'' \<and> tag \<noteq> ''canvas''
      \<longrightarrow> createElement tag = Inl (Error ''The element must be a canvas or svg.'')) \<and>
   (o_el opts = None \<and> orDefault (o_tagName opts) ''canvas'' \<noteq> ''svg'' \<and>
    orDefault (o_tagName opts) ''canvas'' \<noteq> ''canvas''
      \<longrightarrow> constructor opts = Inl (Error ''The element must be a canvas or svg.'')) \<and>
   (j_el jopts = None \<and> orDefault (j_tagName jopts) ''canvas'' \<noteq> ''svg'' \<and>
    orDefault (j_tagName jopts) ''canvas'' \<noteq> ''canvas''
      \<longrightarrow> surfaces_js_constructor jopts = Inl (Error ''The element must be a canvas or svg.'')) \<and>
   (o_el opts = None \<and>
    (orDefault (o_tagName opts) ''canvas'' = ''canvas'' \<or> orDefault (o_tagName opts) ''canvas'' = ''svg'')
      \<longrightarrow> \<not> isl (constructor opts) \<and>
          surfaceType (projr (constructor opts)) = Some (orDefault (o_tagName opts) ''canvas'')) \<and>
   (j_el jopts = None \<and>
    (orDefault (j_tagName jopts) ''canvas'' = ''canvas'' \<or> orDefault (j_tagName jopts) ''canvas'' = ''svg'')
      \<longrightarrow> \<not> isl (surfaces_js_constructor jopts) \<and>
          surfaceType (projr (surfaces_js_constructor jopts))
            = Some (orDefault (j_tagName jopts) ''canvas'')) \<and>
   (\<forall>e. o_el opts = Some e \<and>
        (toLowerCase (nodeName e) = ''canvas'' \<or> toLowerCase (nodeName e) = ''svg'')
      \<longrightarrow> \<not> isl (constructor opts) \<and>
          surfaceType (projr (constructor opts)) = Some (toLowerCase (nodeName e))) \<and>
   (\<forall>e. j_el jopts = Some e \<and>
        (toLowerCase (nodeName e) = ''canvas'' \<or> toLowerCase (nodeName e) = ''svg'')
      \<longrightarrow> \<not> isl (surfaces_js_constructor jopts) \<and>
          surfaceType (projr (surfaces_js_constructor jopts)) = Some (toLowerCase (nodeName e)))"
proof (intro conjI allI impI)
  show "createElement tag = Inl (Error ''The element must be a canvas or svg.'')"
    if "tag \<noteq> ''svg'' \<and> tag \<noteq> ''canvas''"
    using that by (simp add: createElement_other)
  show "constructor opts = Inl (Error ''The element must be a canvas or svg.'')"
    if "o_el opts = None \<and> orDefault (o_tagName opts) ''canvas'' \<noteq> ''svg'' \<and>
        orDefault (o_tagName opts) ''canvas'' \<noteq> ''canvas''"
    using that by (intro constructor_fails) simp_all
  show "surfaces_js_constructor jopts = Inl (Error ''The element must be a canvas or svg.'')"
    if "j_el jopts = None \<and> orDefault (j_tagName jopts) ''canvas'' \<noteq> ''svg'' \<and>
        orDefault (j_tagName jopts) ''canvas'' \<noteq> ''canvas''"
    using that by (intro surfaces_js_constructor_fails) simp_all
  show "\<not> isl (constructor opts)"
    and "surfaceType (projr (constructor opts)) = Some (orDefault (o_tagName opts) ''canvas'')"
    if "o_el opts = None \<and>
        (orDefault (o_tagName opts) ''canvas'' = ''canvas'' \<or>
         orDefault (o_tagName opts) ''canvas'' = ''svg'')"
    using constructor_created_element [of opts] that by simp_all
  show "\<not> isl (surfaces_js_constructor jopts)"
    and "surfaceType (projr (surfaces_js_constructor jopts))
           = Some (orDefault (j_tagName jopts) ''canvas'')"
    if "j_el jopts = None \<and>
        (orDefault (j_tagName jopts) ''canvas'' = ''canvas'' \<or>
         orDefault (j_tagName jopts) ''canvas'' = ''svg'')"
    using surfaces_js_constructor_created_element [of jopts] that by simp_all
  show "\<not> isl (constructor opts)"
    and "surfaceType (projr (constructor opts)) = Some (toLowerCase (nodeName e))"
    if "o_el opts = Some e \<and>
        (toLowerCase (nodeName e) = ''canvas'' \<or> toLowerCase (nodeName e) = ''svg'')" for e
    using constructor_supplied_element(1,2) [of opts e] that by simp_all
  show "\<not> isl (surfaces_js_constructor jopts)"
    and "surfaceType (projr (surfaces_js_constructor jopts)) = Some (toLowerCase (nodeName e))"
    if "j_el jopts = Some e \<and>
        (toLowerCase (nodeName e) = ''canvas'' \<or> toLowerCase (nodeName e) = ''svg'')" for e
    using surfaces_js_constructor_supplied_element(1,2) [of jopts e] that by simp_all
qed

theorem unsupported_tag_fails_witness:
  "createElement ''div'' = Inl (Error ''The element must be a canvas or svg.'') \<and>
   constructor (noOptions\<lparr>o_tagName := Some ''div''\<rparr>)
     = Inl (Error ''The element must be a canvas or svg.'') \<and>
   surfaces_js_constructor (surfaces_js_noOptions\<lparr>j_tagName := Some ''CANVAS''\<rparr>)
     = Inl (Error ''The element must be a canvas or svg.'') \<and>
   \<not> isl (constructor (noOptions\<lparr>o_el := Some document_createElementNS_svg\<rparr>)) \<and>
   surfaceType (projr (constructor (noOptions\<lparr>o_el := Some document_createElementNS_svg\<rparr>)))
     = Some ''svg'' \<and>
   \<not> isl (surfaces_js_constructor
            (surfaces_js_noOptions\<lparr>j_el := Some document_createElement_canvas\<rparr>)) \<and>
   surfaceType (projr (constructor (noOptions\<lparr>o_tagName := Some ''svg''\<rparr>))) = Some ''svg''"
proof -
  have l: "toLowerCase (nodeName document_createElementNS_svg) = ''svg''"
    "toLowerCase (nodeName document_createElement_canvas) = ''canvas''"
    by (simp_all add: document_createElementNS_svg_def document_createElement_canvas_def
        toLowerCase_examples)
  show ?thesis
    using unsupported_tag_fails [of "''div''" "noOptions\<lparr>o_tagName := Some ''div''\<rparr>"
        "surfaces_js_noOptions\<lparr>j_tagName := Some ''CANVAS''\<rparr>"]
      unsupported_tag_fails [of "''div''" "noOptions\<lparr>o_el := Some document_createElementNS_svg\<rparr>"
        "surfaces_js_noOptions\<lparr>j_el := Some document_createElement_canvas\<rparr>"]
      unsupported_tag_fails [of "''div''" "noOptions\<lparr>o_tagName := Some ''svg''\<rparr>"
        "surfaces_js_noOptions"] l
    by (simp add: noOptions_def surfaces_js_noOptions_def orDefault_def)
qed

text \<open>
  The claim fails when an element is supplied: with the tag name \<open>div\<close> and a canvas
  element the constructor succeeds, and the surface is a canvas surface.
\<close>

theorem supplied_element_counterexample:
  "\<not> isl (constructor
            (noOptions\<lparr>o_tagName := Some ''div'', o_el := Some document_createElement_canvas\<rparr>)) \<and>
   tagName (projr (constructor
            (noOptions\<lparr>o_tagName := Some ''div'', o_el := Some document_createElement_canvas\<rparr>)))
     = ''div'' \<and>
   surfaceType (projr (constructor
            (noOptions\<lparr>o_tagName := Some ''div'', o_el := Some document_createElement_canvas\<rparr>)))
     = Some ''canvas'' \<and>
   \<not> isl (surfaces_js_constructor
            (surfaces_js_noOptions\<lparr>j_tagName := Some ''div'',
                                    j_el := Some document_createElementNS_svg\<rparr>))"
  by (simp add: construct_defs)

section \<open>Properties of the rotation matrix\<close>

lemma generateMatrix_Fin:
  "generateMatrix (Fin y) (Fin p) =
     [[Fin (cos y), Fin (- sin y), Fin 0],
      [Fin (cos p * sin y), Fin (cos p * cos y), Fin (- sin p)],
      [Fin (sin p * sin y), Fin (sin p * cos y), Fin (cos p)]]"
  by (simp add: generateMatrix_def)

lemma generateMatrix_identity: "generateMatrix (Fin 0) (Fin 0) = identity3"
  by (simp add: generateMatrix_Fin identity3_def)

lemma generateMatrix_composition:
  "generateMatrix (Fin y) (Fin p) = matMul (pitchRotation (Fin p)) (yawRotation (Fin y))"
  by (simp add: generateMatrix_Fin matMul_def pitchRotation_def yawRotation_def dot_def)

lemma cs1: "cos (x::real) * cos x + sin x * sin x = 1"
  using sin_cos_squared_add2 [of x] by (simp add: power2_eq_square)

lemma rotation_identities:
  fixes cy sy cp sp :: real
  assumes "cy * cy + sy * sy = 1" and "cp * cp + sp * sp = 1"
  shows "cy * cy + cp * sy * (cp * sy) + sp * sy * (sp * sy) = 1"
    and "cp * sy * (cp * cy) - cy * sy + sp * sy * (sp * cy) = 0"
    and "cp * cy * (cp * sy) - sy * cy + sp * cy * (sp * sy) = 0"
    and "sy * sy + cp * cy * (cp * cy) + sp * cy * (sp * cy) = 1"
    and "sp * sp + cp * cp = 1"
proof -
  have sp: "sp * sp = 1 - cp * cp" and sy: "sy * sy = 1 - cy * cy"
    using assms by linarith+
  have a: "sp * sy * (sp * sy) = (sp * sp) * (sy * sy)" "cp * sy * (cp * sy) = (cp * cp) * (sy * sy)"
    "sp * sy * (sp * cy) = (sp * sp) * (sy * cy)" "cp * sy * (cp * cy) = (cp * cp) * (sy * cy)"
    "sp * cy * (sp * sy) = (sp * sp) * (sy * cy)" "cp * cy * (cp * sy) = (cp * cp) * (sy * cy)"
    "sp * cy * (sp * cy) = (sp * sp) * (cy * cy)" "cp * cy * (cp * cy) = (cp * cp) * (cy * cy)"
    by (simp_all add: mult_ac)
  show "cy * cy + cp * sy * (cp * sy) + sp * sy * (sp * sy) = 1"
    unfolding a sp sy by (simp add: algebra_simps)
  show "cp * sy * (cp * cy) - cy * sy + sp * sy * (sp * cy) = 0"
    unfolding a sp by (simp add: algebra_simps)
  show "cp * cy * (cp * sy) - sy * cy + sp * cy * (sp * sy) = 0"
    unfolding a sp by (simp add: algebra_simps)
  show "sy * sy + cp * cy * (cp * cy) + sp * cy * (sp * cy) = 1"
    unfolding a sp sy by (simp add: algebra_simps)
  show "sp * sp + cp * cp = 1"
    using assms(2) by simp
qed

lemma generateMatrix_orthonormal:
  "matMul (transpose (generateMatrix (Fin y) (Fin p))) (generateMatrix (Fin y) (Fin p)) = identity3"
  using rotation_identities [OF cs1 [of y] cs1 [of p]]
  by (simp add: generateMatrix_Fin matMul_def dot_def identity3_def)

lemma rotation_determinant:
  fixes cy sy cp sp :: real
  assumes "cy * cy + sy * sy = 1" and "cp * cp + sp * sp = 1"
  shows "cy * (cp * cy * cp + sp * (sp * cy)) + sy * (cp * sy * cp + sp * (sp * sy)) = 1"
proof -
  have "cy * (cp * cy * cp + sp * (sp * cy)) + sy * (cp * sy * cp + sp * (sp * sy))
        = (cy * cy + sy * sy) * (cp * cp + sp * sp)"
    by (simp add: algebra_simps)
  then show ?thesis
    unfolding assms by simp
qed

lemma generateMatrix_det: "det3 (generateMatrix (Fin y) (Fin p)) = Fin 1"
  using rotation_determinant [OF cs1 [of y] cs1 [of p]]
  by (simp add: generateMatrix_Fin det3_def entry_def js_nth_def js_sub_def)

lemma rotate_composition:
  "rotate (generateMatrix (Fin y) (Fin p)) [Fin a, Fin b, Fin c]
     = rotate (pitchRotation (Fin p)) (rotate (yawRotation (Fin y)) [Fin a, Fin b, Fin c])"
  by (simp add: generateMatrix_Fin rotate_def pitchRotation_def yawRotation_def dot_def
      algebra_simps)

text \<open>
  Claim C4. The builder applied to yaw 0 and pitch 0 returns the identity matrix; for
  all (finite) yaw and pitch its matrix M is orthonormal, with the transpose of M times
  M the identity and determinant 1, and M is the pitch rotation composed after the yaw
  rotation: M is their product, and rotating a vector by M is rotating it by the yaw
  rotation first and by the pitch rotation second. The yaw rotation fixes the up axis
  (the third) and the pitch rotation the horizontal axis (the first).
\<close>

theorem rotation_matrix_properties:
  "generateMatrix (Fin 0) (Fin 0) = identity3 \<and>
   matMul (transpose (generateMatrix (Fin y) (Fin p))) (generateMatrix (Fin y) (Fin p))
     = identity3 \<and>
   det3 (generateMatrix (Fin y) (Fin p)) = Fin 1 \<and>
   generateMatrix (Fin y) (Fin p) = matMul (pitchRotation (Fin p)) (yawRotation (Fin y)) \<and>
   rotate (generateMatrix (Fin y) (Fin p)) [Fin a, Fin b, Fin c]
     = rotate (pitchRotation (Fin p)) (rotate (yawRotation (Fin y)) [Fin a, Fin b, Fin c]) \<and>
   rotate (yawRotation (Fin y)) [Fin 0, Fin 0, Fin c] = [Fin 0, Fin 0, Fin c] \<and>
   rotate (pitchRotation (Fin p)) [Fin a, Fin 0, Fin 0] = [Fin a, Fin 0, Fin 0]"
  using generateMatrix_identity generateMatrix_orthonormal [of y p] generateMatrix_det [of y p]
    generateMatrix_composition [of y p] rotate_composition [of y p a b c]
  by (simp add: rotate_def yawRotation_def pitchRotation_def dot_def)

section \<open>Quad assembly\<close>

lemma concat_rows_length:
  assumes "\<forall>i<n. length (g i) = m"
  shows "length (concat (map g [0..<n])) = n * m"
  using assms by (induction n) simp_all

lemma concat_rows_nth:
  assumes "\<forall>i<n. length (g i) = m" and "i < n" and "j < m"
  shows "concat (map g [0..<n]) ! (i * m + j) = g i ! j"
  using assms
proof (induction n)
  case 0
  then show ?case by simp
next
  case (Suc n)
  have len: "length (concat (map g [0..<n])) = n * m"
    using Suc.prems(1) by (intro concat_rows_length) simp
  show ?case
  proof (cases "i < n")
    case True
    then have "Suc i * m \<le> n * m"
      by (intro mult_le_mono1) simp
    then have "i * m + j < n * m"
      using Suc.prems(3) by simp
    with True Suc show ?thesis
      by (simp add: nth_append len)
  next
    case False
    with Suc.prems(2) have "i = n" by simp
    then show ?thesis
      by (simp add: nth_append len)
  qed
qed

lemma columns_rect:
  assumes "\<forall>row\<in>set data. length row = ny" and "data \<noteq> []"
  shows "columns data = ny"
  using assms by (cases data) (simp_all add: columns_def)

lemma length_assembleQuads:
  assumes "\<forall>row\<in>set data. length row = ny" and "length data = nx" and "2 \<le> nx"
  shows "length (assembleQuads pts data) = (nx - 1) * (ny - 1)"
proof -
  have "data \<noteq> []" using assms(2,3) by auto
  then have c: "columns data = ny"
    using assms(1) by (intro columns_rect)
  show ?thesis
    unfolding assembleQuads_def c assms(2)
    by (rule concat_rows_length) simp
qed

lemma nth_assembleQuads:
  assumes "\<forall>row\<in>set data. length row = ny" and "length data = nx" and "2 \<le> nx"
    and "i < nx - 1" and "j < ny - 1"
  shows "assembleQuads pts data ! (i * (ny - 1) + j) = quadAt pts data i j"
proof -
  have "data \<noteq> []" using assms(2,3) by auto
  then have c: "columns data = ny"
    using assms(1) by (intro columns_rect)
  have "concat (map (\<lambda>i. map (\<lambda>j. quadAt pts data i j) [0..<ny - 1]) [0..<nx - 1])
          ! (i * (ny - 1) + j) = map (\<lambda>j. quadAt pts data i j) [0..<ny - 1] ! j"
    using assms(4,5) by (intro concat_rows_nth) simp_all
  then show ?thesis
    using assms(5) by (simp add: assembleQuads_def c assms(2))
qed

lemma projectGrid_nth:
  assumes "i < length (v_data a)" and "j < length (v_data a ! i)"
  shows "projectGrid a ! i ! j = projectPoint a i j (v_data a ! i ! j)"
  using assms by (simp add: projectGrid_def nth_enumerate_eq)

text \<open>
  Claim C2. For every grid of nx by ny samples (nx, ny at least 2) and the points
  projected from it, quad assembly emits exactly (nx - 1) * (ny - 1) quads in row-major
  order: the quad of the cell (i, j) stands at index i * (ny - 1) + j, its corners are
  the points (i, j), (i + 1, j), (i + 1, j + 1) and (i, j + 1), in this order, and its
  \<open>avg\<close> is the sum of the four samples at these indices divided by 4; for the corner
  values 1, 2, 3, 4 it is 2.5. In \<open>generateVisData\<close> the point (i, j) is the projection of
  the sample (i, j).
\<close>

theorem quads_of_grid:
  assumes "\<forall>row\<in>set data. length row = ny" and "length data = nx"
    and "2 \<le> nx" and "2 \<le> ny"
  shows "length (assembleQuads pts data) = (nx - 1) * (ny - 1) \<and>
         (\<forall>i j. i < nx - 1 \<and> j < ny - 1 \<longrightarrow>
            moveTo (path (assembleQuads pts data ! (i * (ny - 1) + j))) = pts ! i ! j \<and>
            pointOne (path (assembleQuads pts data ! (i * (ny - 1) + j))) = pts ! (i + 1) ! j \<and>
            pointTwo (path (assembleQuads pts data ! (i * (ny - 1) + j)))
              = pts ! (i + 1) ! (j + 1) \<and>
            pointThree (path (assembleQuads pts data ! (i * (ny - 1) + j))) = pts ! i ! (j + 1) \<and>
            avg (assembleQuads pts data ! (i * (ny - 1) + j))
              = js_div
                  (js_add
                     (js_add (js_add (data ! i ! j) (data ! (i + 1) ! j))
                        (data ! (i + 1) ! (j + 1)))
                     (data ! i ! (j + 1)))
                  (Fin 4)) \<and>
         (\<forall>a b c d.
            avg (quadAt pts [[Fin a, Fin d], [Fin b, Fin c]] 0 0) = Fin ((a + b + c + d) / 4)) \<and>
         avg (quadAt pts [[Fin 1, Fin 4], [Fin 2, Fin 3]] 0 0) = Fin (5 / 2) \<and>
         (pts = projectGrid a \<and> data = v_data a \<longrightarrow>
            generateVisData a = assembleQuads pts data \<and>
            (\<forall>i j. i < nx \<and> j < ny \<longrightarrow> pts ! i ! j = projectPoint a i j (data ! i ! j)))"
proof -
  have "pts ! i ! j = projectPoint a i j (data ! i ! j)"
    if "pts = projectGrid a" "data = v_data a" "i < nx" "j < ny" for i j
  proof -
    have "data ! i \<in> set data"
      using that(3) assms(2) by simp
    then have "j < length (v_data a ! i)"
      using assms(1) that(2,4) by auto
    then show ?thesis
      using that assms(2) by (simp add: projectGrid_nth)
  qed
  then show ?thesis
    using length_assembleQuads [OF assms(1,2,3), of pts]
      nth_assembleQuads [OF assms(1,2,3), of _ _ pts]
    by (simp add: quadAt_def generateVisData_def)
qed

theorem quads_of_grid_witness:
  "assembleQuads [[(Fin 0, Fin 0), (Fin 0, Fin 1)], [(Fin 1, Fin 0), (Fin 1, Fin 1)]]
     [[Fin 1, Fin 4], [Fin 2, Fin 3]]
   = [\<lparr>path = \<lparr>moveTo = (Fin 0, Fin 0), pointOne = (Fin 1, Fin 0), pointTwo = (Fin 1, Fin 1),
               pointThree = (Fin 0, Fin 1)\<rparr>,
       avg = Fin (5 / 2)\<rparr>]"
proof -
  let ?pts = "[[(Fin 0, Fin 0), (Fin 0, Fin 1)], [(Fin 1, Fin 0), (Fin 1, Fin 1)]]"
  let ?data = "[[Fin 1, Fin 4], [Fin 2, Fin 3]]"
  have h: "\<forall>row\<in>set ?data. length row = 2" "length ?data = 2" "(2::nat) \<le> 2"
    by simp_all
  have len: "length (assembleQuads ?pts ?data) = 1"
    using quads_of_grid [OF h(1,2,3,3), of ?pts] by simp
  have q: "assembleQuads ?pts ?data ! 0
     = \<lparr>path = \<lparr>moveTo = (Fin 0, Fin 0), pointOne = (Fin 1, Fin 0), pointTwo = (Fin 1, Fin 1),
               pointThree = (Fin 0, Fin 1)\<rparr>,
        avg = Fin (5 / 2)\<rparr>"
    using quads_of_grid [OF h(1,2,3,3), of ?pts] by (intro quad.equality path.equality) simp_all
  from len obtain x where x: "assembleQuads ?pts ?data = [x]"
    by (cases "assembleQuads ?pts ?data") simp_all
  with q show ?thesis by simp
qed

section \<open>Projection\<close>

text \<open>
  The projection of \<open>generateVisData\<close>: a vertex rotated to (x', y', z') is shown at
  (width / 2 + zoom * x', height / 2 - zoom * y'); with yaw 0, pitch 0 and the sample 0
  this is linear in the vertex, with no shear term. \<open>render\<close> of part_000 passes the
  surface's own zoom, size, scales and rotation matrix.
\<close>

lemma projection_law:
  assumes "rotate (v_rotationMatrix a) (vertex a i j z) = [x', y', z']"
  shows "projectPoint a i j z =
           (js_add (js_div (v_width a) (Fin 2)) (js_mul (v_zoom a) x'),
            js_sub (js_div (v_height a) (Fin 2)) (js_mul (v_zoom a) y'))"
  by (simp add: projectPoint_def assms toScreen_def js_nth_def)

lemma projection_top_down:
  assumes "v_rotationMatrix a = generateMatrix (Fin 0) (Fin 0)"
    and "v_xDomain a = (Fin x0, Fin x1)" and "v_yDomain a = (Fin y0, Fin y1)"
    and "v_xResolution a = Fin rx" and "v_yResolution a = Fin ry"
    and "v_xScale a = Fin sx" and "v_yScale a = Fin sy" and "v_zScale a = Fin sz"
    and "v_zoom a = Fin zm" and "v_width a = Fin w" and "v_height a = Fin h"
  shows "projectPoint a i j (Fin 0) =
           (Fin (w / 2 + zm * (sx * (x0 + real i * rx))),
            Fin (h / 2 - zm * (sy * (y0 + real j * ry))))"
  by (simp add: projectPoint_def vertex_def assms rotate_def generateMatrix_identity
      identity3_def dot_def toScreen_def js_nth_def js_sub_def)

lemma render_passes_zoom:
  "v_zoom (visArgs data this) = zoom this"
  "v_xScale (visArgs data this) = js_or (xScale this) (xyScale this)"
  "v_yScale (visArgs data this) = js_or (yScale this) (xyScale this)"
  "v_rotationMatrix (visArgs data this) = rotationMatrix this"
  "v_width (visArgs data this) = width this"
  "v_height (visArgs data this) = height this"
  by (simp_all add: visArgs_def)

text \<open>
  Claim C1, at the failing input. \<open>render\<close> of src/src/surfaces.js hands \<open>createPlane\<close> the
  constant zoom 1, whatever the surface's zoom is: a surface constructed with zoom 2
  holds the zoom 2 and is projected with the zoom 1.
\<close>

theorem surfaces_js_render_ignores_zoom:
  "zoom (projr (surfaces_js_constructor (surfaces_js_noOptions\<lparr>j_zoom := Some (Fin 2)\<rparr>))) = Fin 2 \<and>
   p_zoom (surfaces_js_planeArgs data
             (projr (surfaces_js_constructor (surfaces_js_noOptions\<lparr>j_zoom := Some (Fin 2)\<rparr>))))
     = Fin 1 \<and>
   p_zoom (surfaces_js_planeArgs data this) = Fin 1"
  by (simp add: construct_defs surfaces_js_planeArgs_def)

section \<open>Non-finite samples\<close>

lemma js_mul_NaN [simp]: "js_mul a NaN = NaN"
  by (cases a) simp_all

lemma js_add_NaN [simp]: "js_add a NaN = NaN"
  by (cases a) simp_all

lemma js_sub_NaN [simp]: "js_sub a NaN = NaN"
  by (simp add: js_sub_def)

lemma rotate_NaN:
  "rotate (generateMatrix yw pt) [x, y, NaN] = [NaN, NaN, NaN]"
  by (simp add: rotate_def generateMatrix_def dot_def Let_def)

lemma projectPoint_NaN:
  assumes "v_rotationMatrix a = generateMatrix yw pt"
  shows "projectPoint a i j NaN = (NaN, NaN)"
  by (simp add: projectPoint_def vertex_def assms rotate_NaN toScreen_def js_nth_def)


lemma default_rotation:
  "rotationMatrix (projr (constructor noOptions)) = generateMatrix (Fin (1 / 2)) (Fin (1 / 2))"
  by (simp add: construct_defs)














text \<open>
  Under the recommended policy the number of quads skipped for one NaN sample is the
  number of cells that touch it: all four for the centre of a 3 by 3 field.
\<close>

lemma centre_sample_touches_four_quads:
  "skippingAssembler
     (generateVisData
        (visArgs [[Fin 0, Fin 0, Fin 0], [Fin 0, NaN, Fin 0], [Fin 0, Fin 0, Fin 0]]
           (projr (constructor noOptions))))
   = ([], 4)"
  by (simp add: generateVisData_def assembleQuads_def columns_def quadAt_def projectGrid_def
      visArgs_def finiteQuad_def finitePoint_def projectPoint_def vertex_def toScreen_def
      js_nth_def default_rotation rotate_NaN skippingAssembler_def upt_rec [of 0] upt_rec [of 1])

section \<open>Render\<close>

lemma js_eq_refl: "\<tau> \<noteq> NaN \<Longrightarrow> js_eq \<tau> \<tau>"
  by (cases \<tau>) simp_all

lemma axisSamples_single: "\<tau> \<noteq> NaN \<Longrightarrow> axisSamples \<tau> \<tau> resolution = Some [\<tau>]"
  by (simp add: axisSamples_def js_eq_refl)

lemma renderTime_omitted: "r_t opts = None \<Longrightarrow> renderTime opts = Fin 0"
  by (simp add: renderTime_def)

lemma renderTime_requested: "r_t opts = Some \<tau> \<Longrightarrow> \<tau> \<noteq> NaN \<Longrightarrow> renderTime opts = \<tau>"
  by (cases \<tau>) (simp_all add: renderTime_def)

lemma renderTime_not_NaN: "renderTime opts \<noteq> NaN"
proof (cases "r_t opts")
  case None
  then show ?thesis by (simp add: renderTime_def)
next
  case (Some \<tau>)
  then show ?thesis by (cases \<tau>) (simp_all add: renderTime_def)
qed

lemma computeData_single_time:
  assumes "\<tau> \<noteq> NaN"
  shows "computeData \<tau> \<tau> (Fin 1) this =
     (if js_le (js_or (xResolution this) (xyResolution this)) (Fin 0)
         \<or> js_le (js_or (yResolution this) (xyResolution this)) (Fin 0)
      then Some (Inl InvalidConfig)
      else
     (case axisSamples (fst (orDefault (xDomain this) (xyDomain this)))
             (snd (orDefault (xDomain this) (xyDomain this)))
             (js_or (xResolution this) (xyResolution this)) of
        None \<Rightarrow> None
      | Some xs \<Rightarrow>
     (case axisSamples (fst (orDefault (yDomain this) (xyDomain this)))
             (snd (orDefault (yDomain this) (xyDomain this)))
             (js_or (yResolution this) (xyResolution this)) of
        None \<Rightarrow> None
      | Some ys \<Rightarrow> Some (Inr [map (\<lambda>x. map (\<lambda>y. ToNumber (fn this [\<tau>, x, y])) ys) xs]))))"
  by (simp add: computeData_def compute_def axisSamples_single [OF assms] split: option.splits)

lemma computeData_one_sample:
  assumes "computeData \<tau> \<tau> (Fin 1) this = Some (Inr field)" and "\<tau> \<noteq> NaN"
  shows "\<exists>xs ys. field = [map (\<lambda>x. map (\<lambda>y. ToNumber (fn this [\<tau>, x, y])) ys) xs]"
  using assms(1) unfolding computeData_single_time [OF assms(2)]
  by (auto split: option.splits if_splits)

lemma render_diverges:
  assumes "computeData (renderTime opts) (renderTime opts) (Fin 1) this = None"
  shows "render opts this = None"
  using assms by (simp add: render_def Let_def)

lemma render_fails:
  assumes "computeData (renderTime opts) (renderTime opts) (Fin 1) this = Some (Inl e)"
  shows "render opts this = Some (Inl e)"
  using assms by (simp add: render_def Let_def)

lemma render_canvas:
  assumes "computeData (renderTime opts) (renderTime opts) (Fin 1) this = Some (Inr [data])"
    and "el this = Some e" and "surfaceType this = Some ''canvas''"
    and "toLowerCase (nodeName e) = ''canvas''"
  shows "render opts this =
           Some (Inr (this\<lparr>el := Some (e\<lparr>context2d :=
             context2d e @ ClearRect (Fin 0) (Fin 0) (el_width e) (el_height e) #
             concat (map (\<lambda>a. paintQuad (colorFn this (avg a)) (strokeColorFn this (avg a))
                                (path a))
                       (generateVisData (visArgs data this)))\<rparr>)\<rparr>))"
  using assms by (simp add: render_def Let_def renderCanvasSurface_def)

lemma render_svg:
  assumes "computeData (renderTime opts) (renderTime opts) (Fin 1) this = Some (Inr [data])"
    and "el this = Some e" and "surfaceType this \<noteq> Some ''canvas''"
  shows "render opts this =
           Some (Inr (this\<lparr>el := Some (e\<lparr>childNodes :=
             map (\<lambda>a. \<lparr>attr_d = path a, attr_fill = colorFn this (avg a)\<rparr>)
               (generateVisData (visArgs data this))\<rparr>)\<rparr>))"
  using assms by (simp add: render_def Let_def renderSvgSurface_def)

lemma renderCanvasSurface_this:
  "renderCanvasSurface visData this = Inr this' \<Longrightarrow> this' = this\<lparr>el := el this'\<rparr>"
  by (auto simp: renderCanvasSurface_def split: option.splits if_splits)

lemma renderSvgSurface_this:
  "renderSvgSurface visData this = Inr this' \<Longrightarrow> this' = this\<lparr>el := el this'\<rparr>"
  by (auto simp: renderSvgSurface_def split: option.splits)

lemma render_this:
  assumes "render opts this = Some (Inr this')"
  shows "this' = this\<lparr>el := el this'\<rparr>"
  using assms renderCanvasSurface_this renderSvgSurface_this
  by (auto simp: render_def Let_def split: option.splits sum.splits list.splits if_splits)

lemma constructor_element:
  assumes "constructor opts = Inr s"
  shows "\<exists>e. el s = Some e \<and> surfaceType s = Some (toLowerCase (nodeName e))"
proof -
  obtain mid where e: "ensureElement (generateRotation (defaults opts)) = Inr mid"
    and t: "setType mid = Inr s"
    using assms by (rule constructor_steps)
  from t show ?thesis
    by (auto simp: setType_def split: option.splits)
qed

lemma render_succeeds:
  assumes "computeData (renderTime opts) (renderTime opts) (Fin 1) this = Some (Inr field)"
    and "el this = Some e" and "surfaceType this = Some (toLowerCase (nodeName e))"
  shows "\<exists>this'. render opts this = Some (Inr this')"
proof -
  obtain data where f: "field = [data]"
    using computeData_one_sample [OF assms(1) renderTime_not_NaN] by blast
  show ?thesis
  proof (cases "surfaceType this = Some ''canvas''")
    case True
    with assms(3) have "toLowerCase (nodeName e) = ''canvas''"
      by simp
    then show ?thesis
      using render_canvas [OF assms(1) [unfolded f] assms(2) True] by blast
  next
    case False
    then show ?thesis
      using render_svg [OF assms(1) [unfolded f] assms(2)] by blast
  qed
qed

lemma surfaces_js_planeArgs_cache:
  "surfaces_js_planeArgs field (sj\<lparr>cache := c\<rparr>) = surfaces_js_planeArgs field sj"
  by (simp add: surfaces_js_planeArgs_def)

lemma surfaces_js_render_field:
  assumes "cache sj = None \<and> cj (surfaces_js_computeArgs sj) = Inr field \<or> cache sj = Some field"
  shows "surfaces_js_render cj cp sj =
           (case cp (surfaces_js_planeArgs field sj) of
              Inl e \<Rightarrow> Inl e
            | Inr plane \<Rightarrow> surfaces_js_renderCanvasSurface plane (sj\<lparr>cache := Some field\<rparr>))"
proof (cases "cache sj")
  case None
  with assms show ?thesis
    by (simp add: surfaces_js_render_def surfaces_js_computeData_def surfaces_js_planeArgs_cache)
next
  case (Some cached)
  with assms have c: "cache sj = Some field"
    by simp
  then have eq: "sj\<lparr>cache := Some field\<rparr> = sj"
    by (simp flip: c)
  show ?thesis
    unfolding eq using c by (simp add: surfaces_js_render_def)
qed

lemma surfaces_js_render_result:
  assumes "cache sj = None \<and> cj (surfaces_js_computeArgs sj) = Inr field \<or> cache sj = Some field"
    and "cp (surfaces_js_planeArgs field sj) = Inr plane"
    and "el sj = Some e" and "toLowerCase (nodeName e) = ''canvas''"
  shows "surfaces_js_render cj cp sj =
           Inr (sj\<lparr>cache := Some field,
                   el := Some (e\<lparr>context2d :=
                     context2d e @ ClearRect (Fin 0) (Fin 0) (el_width e) (el_height e) #
                     concat (map (\<lambda>a. paintQuad (colorFn sj (avg a)) ''rgba(0, 0, 0, 0.4)''
                                        (path a)) plane)\<rparr>)\<rparr>)"
  using surfaces_js_render_field [of sj cj field cp, OF assms(1)] assms(2,3,4)
  by (simp add: surfaces_js_renderCanvasSurface_def)

lemma surfaces_js_render_compute_fails:
  assumes "cache sj = None" and "cj (surfaces_js_computeArgs sj) = Inl err"
  shows "surfaces_js_render cj cp sj = Inl err"
  using assms by (simp add: surfaces_js_render_def surfaces_js_computeData_def)

lemma surfaces_js_render_plane_fails:
  assumes "cache sj = None \<and> cj (surfaces_js_computeArgs sj) = Inr field \<or> cache sj = Some field"
    and "cp (surfaces_js_planeArgs field sj) = Inl err"
  shows "surfaces_js_render cj cp sj = Inl err"
  using surfaces_js_render_field [of sj cj field cp, OF assms(1)] assms(2) by simp

lemma surfaces_js_render_not_canvas:
  assumes "cache sj = None \<and> cj (surfaces_js_computeArgs sj) = Inr field \<or> cache sj = Some field"
    and "cp (surfaces_js_planeArgs field sj) = Inr plane"
    and "el sj = Some e" and "toLowerCase (nodeName e) \<noteq> ''canvas''"
  shows "surfaces_js_render cj cp sj = Inl (TypeError ''this.el.getContext is not a function'')"
  using surfaces_js_render_field [of sj cj field cp, OF assms(1)] assms(2,3,4)
  by (simp add: surfaces_js_renderCanvasSurface_def)

lemma surfaces_js_render_this:
  assumes "surfaces_js_render cj cp sj = Inr sj'"
  shows "sj' = sj\<lparr>cache := cache sj', el := el sj'\<rparr>"
  using assms
  by (auto simp: surfaces_js_render_def surfaces_js_computeData_def
      surfaces_js_renderCanvasSurface_def split: sum.splits option.splits if_splits)

lemma axisSamples_unit: "axisSamples (Fin 0) (Fin 1) (Fin 1) = Some [Fin 0, Fin 1]"
proof -
  have "axisPoints (nat 2) (Fin 0) (Fin 1) = [Fin 0, Fin 1]"
    by (simp add: eval_nat_numeral)
  then show ?thesis
    by (simp add: axisSamples_def js_sub_def)
qed

text \<open>
  Claim C8, as amended. \<open>render\<close> of part_000 with the time omitted uses the time 0, and
  for every requested time other than NaN it samples the field at exactly that time:
  \<open>from\<close> and \<open>to\<close> are the time and the resolution is 1, which gives one time sample, the
  grid of \<open>fn(time, x, y)\<close>. It hands the current rotation matrix to \<open>generateVisData\<close>,
  which projects and assembles the quads, paints them on the canvas or the svg, and
  returns the surface itself, changed in its element only; it fails or does not return
  only where the sampler does. \<open>render\<close> of src/src/surfaces.js takes no time: it samples
  from and to the current frame when there is no cached field and reuses the cached
  field otherwise, hands \<open>createPlane\<close> the first time slice and the current rotation
  matrix, paints the quads on the canvas and returns the surface itself, changed in its
  cache and its element only; it fails where \<open>compute\<close> or \<open>createPlane\<close> fails, and with a
  TypeError on an element that is not a canvas. The sampled grid is taken over the x and
  y samples of the configured domains and resolutions, and \<open>generateVisData\<close> receives the
  slice together with the zoom, size, scales, domains and resolutions of the surface.
\<close>

theorem render_samples_requested_time:
  "(r_t opts = None \<longrightarrow> renderTime opts = Fin 0) \<and>
   (\<forall>\<tau>. r_t opts = Some \<tau> \<and> \<tau> \<noteq> NaN \<longrightarrow> renderTime opts = \<tau>) \<and>
   axisSamples (renderTime opts) (renderTime opts) (Fin 1) = Some [renderTime opts] \<and>
   (computeData (renderTime opts) (renderTime opts) (Fin 1) this = None
      \<longrightarrow> render opts this = None) \<and>
   (\<forall>e. computeData (renderTime opts) (renderTime opts) (Fin 1) this = Some (Inl e)
      \<longrightarrow> render opts this = Some (Inl e)) \<and>
   (\<forall>field. computeData (renderTime opts) (renderTime opts) (Fin 1) this = Some (Inr field)
      \<longrightarrow> (\<exists>xs ys.
            field = [map (\<lambda>x. map (\<lambda>y. ToNumber (fn this [renderTime opts, x, y])) ys) xs])) \<and>
   v_rotationMatrix (visArgs slice this) = rotationMatrix this \<and>
   (\<forall>data e.
      computeData (renderTime opts) (renderTime opts) (Fin 1) this = Some (Inr [data]) \<and>
      el this = Some e \<and> surfaceType this = Some ''canvas'' \<and>
      toLowerCase (nodeName e) = ''canvas''
      \<longrightarrow> render opts this =
            Some (Inr (this\<lparr>el := Some (e\<lparr>context2d :=
              context2d e @ ClearRect (Fin 0) (Fin 0) (el_width e) (el_height e) #
              concat (map (\<lambda>a. paintQuad (colorFn this (avg a)) (strokeColorFn this (avg a))
                                 (path a))
                        (generateVisData (visArgs data this)))\<rparr>)\<rparr>))) \<and>
   (\<forall>data e.
      computeData (renderTime opts) (renderTime opts) (Fin 1) this = Some (Inr [data]) \<and>
      el this = Some e \<and> surfaceType this \<noteq> Some ''canvas''
      \<longrightarrow> render opts this =
            Some (Inr (this\<lparr>el := Some (e\<lparr>childNodes :=
              map (\<lambda>a. \<lparr>attr_d = path a, attr_fill = colorFn this (avg a)\<rparr>)
                (generateVisData (visArgs data this))\<rparr>)\<rparr>))) \<and>
   (\<forall>this'. render opts this = Some (Inr this') \<longrightarrow> this' = this\<lparr>el := el this'\<rparr>) \<and>
   (\<forall>copts field.
      constructor copts = Inr this \<and>
      computeData (renderTime opts) (renderTime opts) (Fin 1) this = Some (Inr field)
      \<longrightarrow> (\<exists>this'. render opts this = Some (Inr this'))) \<and>
   k_startTime (surfaces_js_computeArgs sj) = currentFrame sj \<and>
   k_maxTime (surfaces_js_computeArgs sj) = currentFrame sj \<and>
   p_rotationMatrix (surfaces_js_planeArgs cached sj) = rotationMatrix sj \<and>
   p_data (surfaces_js_planeArgs (slice # later) sj) = Some slice \<and>
   (\<forall>field plane e.
      (cache sj = None \<and> cj (surfaces_js_computeArgs sj) = Inr field \<or> cache sj = Some field) \<and>
      cp (surfaces_js_planeArgs field sj) = Inr plane \<and>
      el sj = Some e \<and> toLowerCase (nodeName e) = ''canvas''
      \<longrightarrow> surfaces_js_render cj cp sj =
            Inr (sj\<lparr>cache := Some field,
                    el := Some (e\<lparr>context2d :=
                      context2d e @ ClearRect (Fin 0) (Fin 0) (el_width e) (el_height e) #
                      concat (map (\<lambda>a. paintQuad (colorFn sj (avg a)) ''rgba(0, 0, 0, 0.4)''
                                         (path a)) plane)\<rparr>)\<rparr>)) \<and>
   (\<forall>sj'. surfaces_js_render cj cp sj = Inr sj'
      \<longrightarrow> sj' = sj\<lparr>cache := cache sj', el := el sj'\<rparr>) \<and>
   (\<forall>err. cache sj = None \<and> cj (surfaces_js_computeArgs sj) = Inl err
      \<longrightarrow> surfaces_js_render cj cp sj = Inl err) \<and>
   (\<forall>field err.
      (cache sj = None \<and> cj (surfaces_js_computeArgs sj) = Inr field \<or> cache sj = Some field) \<and>
      cp (surfaces_js_planeArgs field sj) = Inl err
      \<longrightarrow> surfaces_js_render cj cp sj = Inl err) \<and>
   (\<forall>field plane e.
      (cache sj = None \<and> cj (surfaces_js_computeArgs sj) = Inr field \<or> cache sj = Some field) \<and>
      cp (surfaces_js_planeArgs field sj) = Inr plane \<and>
      el sj = Some e \<and> toLowerCase (nodeName e) \<noteq> ''canvas''
      \<longrightarrow> surfaces_js_render cj cp sj
            = Inl (TypeError ''this.el.getContext is not a function'')) \<and>
   computeData (renderTime opts) (renderTime opts) (Fin 1) this =
     (if js_le (js_or (xResolution this) (xyResolution this)) (Fin 0)
         \<or> js_le (js_or (yResolution this) (xyResolution this)) (Fin 0)
      then Some (Inl InvalidConfig)
      else
     (case axisSamples (fst (orDefault (xDomain this) (xyDomain this)))
             (snd (orDefault (xDomain this) (xyDomain this)))
             (js_or (xResolution this) (xyResolution this)) of
        None \<Rightarrow> None
      | Some xs \<Rightarrow>
     (case axisSamples (fst (orDefault (yDomain this) (xyDomain this)))
             (snd (orDefault (yDomain this) (xyDomain this)))
             (js_or (yResolution this) (xyResolution this)) of
        None \<Rightarrow> None
      | Some ys \<Rightarrow>
          Some (Inr [map (\<lambda>x. map (\<lambda>y. ToNumber (fn this [renderTime opts, x, y])) ys) xs])))) \<and>
   v_data (visArgs slice this) = slice \<and>
   v_zoom (visArgs slice this) = zoom this \<and>
   v_width (visArgs slice this) = width this \<and>
   v_height (visArgs slice this) = height this \<and>
   v_xScale (visArgs slice this) = js_or (xScale this) (xyScale this) \<and>
   v_yScale (visArgs slice this) = js_or (yScale this) (xyScale this) \<and>
   v_zScale (visArgs slice this) = zScale this \<and>
   v_xDomain (visArgs slice this) = orDefault (xDomain this) (xyDomain this) \<and>
   v_yDomain (visArgs slice this) = orDefault (yDomain this) (xyDomain this) \<and>
   v_xResolution (visArgs slice this) = js_or (xResolution this) (xyResolution this) \<and>
   v_yResolution (visArgs slice this) = js_or (yResolution this) (xyResolution this)"
proof -
  let ?T = "renderTime opts"
  have t1: "r_t opts = None \<longrightarrow> ?T = Fin 0"
    by (simp add: renderTime_omitted)
  have t2: "\<forall>\<tau>. r_t opts = Some \<tau> \<and> \<tau> \<noteq> NaN \<longrightarrow> ?T = \<tau>"
    by (simp add: renderTime_requested)
  have t3: "axisSamples ?T ?T (Fin 1) = Some [?T]"
    using renderTime_not_NaN by (rule axisSamples_single)
  have a: "computeData ?T ?T (Fin 1) this = None \<longrightarrow> render opts this = None"
    by (simp add: render_diverges)
  have b: "\<forall>e. computeData ?T ?T (Fin 1) this = Some (Inl e) \<longrightarrow> render opts this = Some (Inl e)"
    by (simp add: render_fails)
  have c: "\<forall>field. computeData ?T ?T (Fin 1) this = Some (Inr field)
      \<longrightarrow> (\<exists>xs ys. field = [map (\<lambda>x. map (\<lambda>y. ToNumber (fn this [?T, x, y])) ys) xs])"
    using computeData_one_sample [OF _ renderTime_not_NaN] by blast
  have d: "v_rotationMatrix (visArgs slice this) = rotationMatrix this"
    by (simp add: visArgs_def)
  have e: "\<forall>data e.
      computeData ?T ?T (Fin 1) this = Some (Inr [data]) \<and>
      el this = Some e \<and> surfaceType this = Some ''canvas'' \<and>
      toLowerCase (nodeName e) = ''canvas''
      \<longrightarrow> render opts this =
            Some (Inr (this\<lparr>el := Some (e\<lparr>context2d :=
              context2d e @ ClearRect (Fin 0) (Fin 0) (el_width e) (el_height e) #
              concat (map (\<lambda>a. paintQuad (colorFn this (avg a)) (strokeColorFn this (avg a))
                                 (path a))
                        (generateVisData (visArgs data this)))\<rparr>)\<rparr>))"
    using render_canvas by blast
  have f: "\<forall>data e.
      computeData ?T ?T (Fin 1) this = Some (Inr [data]) \<and>
      el this = Some e \<and> surfaceType this \<noteq> Some ''canvas''
      \<longrightarrow> render opts this =
            Some (Inr (this\<lparr>el := Some (e\<lparr>childNodes :=
              map (\<lambda>a. \<lparr>attr_d = path a, attr_fill = colorFn this (avg a)\<rparr>)
                (generateVisData (visArgs data this))\<rparr>)\<rparr>))"
    using render_svg by blast
  have g: "\<forall>this'. render opts this = Some (Inr this') \<longrightarrow> this' = this\<lparr>el := el this'\<rparr>"
    using render_this by blast
  have h: "\<forall>copts field.
      constructor copts = Inr this \<and> computeData ?T ?T (Fin 1) this = Some (Inr field)
      \<longrightarrow> (\<exists>this'. render opts this = Some (Inr this'))"
    using constructor_element render_succeeds by blast
  have j: "k_startTime (surfaces_js_computeArgs sj) = currentFrame sj"
    "k_maxTime (surfaces_js_computeArgs sj) = currentFrame sj"
    "p_rotationMatrix (surfaces_js_planeArgs cached sj) = rotationMatrix sj"
    "p_data (surfaces_js_planeArgs (slice # later) sj) = Some slice"
    by (simp_all add: surfaces_js_computeArgs_def surfaces_js_planeArgs_def)
  have k: "\<forall>field plane e.
      (cache sj = None \<and> cj (surfaces_js_computeArgs sj) = Inr field \<or> cache sj = Some field) \<and>
      cp (surfaces_js_planeArgs field sj) = Inr plane \<and>
      el sj = Some e \<and> toLowerCase (nodeName e) = ''canvas''
      \<longrightarrow> surfaces_js_render cj cp sj =
            Inr (sj\<lparr>cache := Some field,
                    el := Some (e\<lparr>context2d :=
                      context2d e @ ClearRect (Fin 0) (Fin 0) (el_width e) (el_height e) #
                      concat (map (\<lambda>a. paintQuad (colorFn sj (avg a)) ''rgba(0, 0, 0, 0.4)''
                                         (path a)) plane)\<rparr>)\<rparr>)"
    using surfaces_js_render_result [of sj cj _ cp] by blast
  have l: "\<forall>sj'. surfaces_js_render cj cp sj = Inr sj'
      \<longrightarrow> sj' = sj\<lparr>cache := cache sj', el := el sj'\<rparr>"
    using surfaces_js_render_this by blast
  have m: "\<forall>err. cache sj = None \<and> cj (surfaces_js_computeArgs sj) = Inl err
      \<longrightarrow> surfaces_js_render cj cp sj = Inl err"
    using surfaces_js_render_compute_fails by blast
  have n: "\<forall>field err.
      (cache sj = None \<and> cj (surfaces_js_computeArgs sj) = Inr field \<or> cache sj = Some field) \<and>
      cp (surfaces_js_planeArgs field sj) = Inl err
      \<longrightarrow> surfaces_js_render cj cp sj = Inl err"
    using surfaces_js_render_plane_fails [of sj cj _ cp] by blast
  have o: "\<forall>field plane e.
      (cache sj = None \<and> cj (surfaces_js_computeArgs sj) = Inr field \<or> cache sj = Some field) \<and>
      cp (surfaces_js_planeArgs field sj) = Inr plane \<and>
      el sj = Some e \<and> toLowerCase (nodeName e) \<noteq> ''canvas''
      \<longrightarrow> surfaces_js_render cj cp sj
            = Inl (TypeError ''this.el.getContext is not a function'')"
    using surfaces_js_render_not_canvas [of sj cj _ cp] by blast
  note p = computeData_single_time [OF renderTime_not_NaN, of opts this]
  have q: "v_data (visArgs slice this) = slice"
    "v_zoom (visArgs slice this) = zoom this"
    "v_width (visArgs slice this) = width this"
    "v_height (visArgs slice this) = height this"
    "v_xScale (visArgs slice this) = js_or (xScale this) (xyScale this)"
    "v_yScale (visArgs slice this) = js_or (yScale this) (xyScale this)"
    "v_zScale (visArgs slice this) = zScale this"
    "v_xDomain (visArgs slice this) = orDefault (xDomain this) (xyDomain this)"
    "v_yDomain (visArgs slice this) = orDefault (yDomain this) (xyDomain this)"
    "v_xResolution (visArgs slice this) = js_or (xResolution this) (xyResolution this)"
    "v_yResolution (visArgs slice this) = js_or (yResolution this) (xyResolution this)"
    by (simp_all add: visArgs_def)
  show ?thesis
    using t1 t2 t3 a b c d e f g h j k l m n o p q by (intro conjI)
qed

theorem render_samples_requested_time_witness:
  "renderTime \<lparr>r_t = None\<rparr> = Fin 0 \<and>
   renderTime \<lparr>r_t = Some (Fin 5)\<rparr> = Fin 5 \<and>
   renderTime \<lparr>r_t = Some PInf\<rparr> = PInf \<and>
   axisSamples PInf PInf (Fin 1) = Some [PInf] \<and>
   computeData (Fin 5) (Fin 5) (Fin 1)
     (projr (constructor (noOptions\<lparr>o_fn := Some timeOf, o_xyDomain := Some (Fin 0, Fin 1)\<rparr>)))
     = Some (Inr [[[Fin 5, Fin 5], [Fin 5, Fin 5]]]) \<and>
   render \<lparr>r_t = Some (Fin 5)\<rparr>
     (projr (constructor (noOptions\<lparr>o_fn := Some timeOf, o_xyDomain := Some (Fin 0, Fin 1)\<rparr>)))
     \<noteq> None \<and>
   \<not> isl (the (render \<lparr>r_t = Some (Fin 5)\<rparr>
     (projr (constructor (noOptions\<lparr>o_fn := Some timeOf, o_xyDomain := Some (Fin 0, Fin 1)\<rparr>)))))"
proof -
  let ?opts = "noOptions\<lparr>o_fn := Some timeOf, o_xyDomain := Some (Fin 0, Fin 1)\<rparr>"
  let ?s = "projr (constructor ?opts)"
  let ?r = "\<lparr>r_t = Some (Fin 5)\<rparr>"
  note w = render_samples_requested_time [of ?r ?s]
  have "\<not> isl (constructor ?opts)"
    by (rule constructor_succeeds) (simp add: noOptions_def orDefault_def)
  then have s: "constructor ?opts = Inr ?s"
    by simp
  have f: "fn ?s = timeOf" "xyDomain ?s = (Fin 0, Fin 1)" "xDomain ?s = None" "yDomain ?s = None"
    "xResolution ?s = None" "yResolution ?s = None" "xyResolution ?s = Fin 1"
    using constructor_base_fields [OF s] constructor_ext_fields [OF s]
    by (simp_all add: noOptions_def orDefault_def)
  have t: "renderTime ?r = Fin 5"
    using w by simp
  have c: "computeData (Fin 5) (Fin 5) (Fin 1) ?s = Some (Inr [[[Fin 5, Fin 5], [Fin 5, Fin 5]]])"
    by (simp add: computeData_single_time f orDefault_def axisSamples_unit timeOf_def)
  have "\<exists>this'. render ?r ?s = Some (Inr this')"
    using w s c unfolding t by blast
  then have "render ?r ?s \<noteq> None \<and> \<not> isl (the (render ?r ?s))"
    by auto
  moreover have "renderTime \<lparr>r_t = None\<rparr> = Fin 0"
    using render_samples_requested_time [of "\<lparr>r_t = None\<rparr>"] by simp
  moreover have p: "renderTime \<lparr>r_t = Some PInf\<rparr> = PInf"
    using render_samples_requested_time [of "\<lparr>r_t = Some PInf\<rparr>"] by simp
  moreover have "axisSamples PInf PInf (Fin 1) = Some [PInf]"
    using render_samples_requested_time
      [of "\<lparr>r_t = Some PInf\<rparr>", THEN conjunct2, THEN conjunct2, THEN conjunct1]
    by (simp add: p)
  ultimately show ?thesis
    using t c by simp
qed

text \<open>
  The claim fails in src/src/surfaces.js: with the current frame 3, \<open>render()\<close> samples at
  the time 3, not 0. In part_000 a requested time NaN is read as omitted: \<open>render({t: NaN})\<close>
  samples at the time 0.
\<close>

theorem surfaces_js_render_time_counterexample:
  "k_startTime
     (surfaces_js_computeArgs
        (projr (surfaces_js_constructor (surfaces_js_noOptions\<lparr>j_currentFrame := Some (Fin 3)\<rparr>))))
     = Fin 3 \<and>
   \<not> isl (surfaces_js_render recordTime noQuads
            (projr (surfaces_js_constructor (surfaces_js_noOptions\<lparr>j_currentFrame := Some (Fin 3)\<rparr>)))) \<and>
   cache (projr (surfaces_js_render recordTime noQuads
            (projr (surfaces_js_constructor (surfaces_js_noOptions\<lparr>j_currentFrame := Some (Fin 3)\<rparr>)))))
     = Some [[[Fin 3, Fin 3]]] \<and>
   renderTime \<lparr>r_t = Some NaN\<rparr> = Fin 0 \<and>
   render \<lparr>r_t = Some NaN\<rparr> (projr (constructor noOptions))
     = render \<lparr>r_t = Some (Fin 0)\<rparr> (projr (constructor noOptions))"
  by (simp add: construct_defs surfaces_js_computeArgs_def surfaces_js_render_def
      surfaces_js_computeData_def recordTime_def noQuads_def surfaces_js_renderCanvasSurface_def
      renderTime_def render_def)

end
